theory Spec2Isabelle
  imports Complex_Main "HOL-Library.AList"
begin

section \<open>Python values and exceptions\<close>

text \<open>
  Exceptions of the Python sources, as values. Every constructor is a subclass of
  Python's \<open>Exception\<close>. \<open>FileNotFoundError\<close> and \<open>PermissionError\<close> are sibling
  subclasses of \<open>OSError\<close>; neither is a subclass of the other.
\<close>

datatype py_error =
    RuntimeError string
  | TypeError
  | ValueError
  | ZeroDivisionError
  | TimeoutExpired
  | FileNotFoundError
  | PermissionError
  | OSError

text \<open>
  A Python number: an exact integer, or a float. Floats are idealised as reals
  (rounding and overflow of the machine format are not modelled); what matters below is
  only whether a result is still an exact integer.
\<close>

datatype pynum = PyInt int | PyFloat real

text \<open>
  \<open>b ** e\<close> on two Python ints: an exact int for a non-negative exponent, a float for a
  negative one, and \<open>ZeroDivisionError\<close> for \<open>0 ** negative\<close>.
\<close>

definition py_pow :: "int \<Rightarrow> int \<Rightarrow> py_error + pynum" where
  "py_pow b e =
     (if 0 \<le> e then Inr (PyInt (b ^ nat e))
      else if b = 0 then Inl ZeroDivisionError
      else Inr (PyFloat (1 / (real_of_int b) ^ nat (- e))))"

fun py_add :: "pynum \<Rightarrow> pynum \<Rightarrow> pynum" where
  "py_add (PyInt a) (PyInt b) = PyInt (a + b)"
| "py_add (PyInt a) (PyFloat y) = PyFloat (real_of_int a + y)"
| "py_add (PyFloat x) (PyInt b) = PyFloat (x + real_of_int b)"
| "py_add (PyFloat x) (PyFloat y) = PyFloat (x + y)"

section \<open>Strings, integers and the clock\<close>

text \<open>
  Python strings are modelled as \<open>string\<close>; the character classes below are those of the
  ASCII range, which is what the wrapped tools print.
\<close>

definition digit_char :: "nat \<Rightarrow> char" where
  "digit_char d = char_of (48 + d)"

text \<open>\<open>str(n)\<close> for a Python int: decimal digits, most significant first, \<open>-\<close> for a negative.\<close>

fun str_nat :: "nat \<Rightarrow> string" where
  "str_nat n = (if n < 10 then [digit_char n] else str_nat (n div 10) @ [digit_char (n mod 10)])"

definition str_int :: "int \<Rightarrow> string" where
  "str_int i = (if i < 0 then CHR ''-'' # str_nat (nat (- i)) else str_nat (nat i))"

text \<open>
  \<open>time.time()\<close> is a float, idealised as a real number of seconds; \<open>int(x)\<close> on a float
  truncates towards zero.
\<close>

definition py_int_of_float :: "real \<Rightarrow> int" where
  "py_int_of_float x = (if 0 \<le> x then \<lfloor>x\<rfloor> else \<lceil>x\<rceil>)"

definition is_digit :: "char \<Rightarrow> bool" where
  "is_digit c = (48 \<le> (of_char c :: nat) \<and> (of_char c :: nat) \<le> 57)"

definition is_upper :: "char \<Rightarrow> bool" where
  "is_upper c = (65 \<le> (of_char c :: nat) \<and> (of_char c :: nat) \<le> 90)"

definition is_lower :: "char \<Rightarrow> bool" where
  "is_lower c = (97 \<le> (of_char c :: nat) \<and> (of_char c :: nat) \<le> 122)"

definition is_lower_hex :: "char \<Rightarrow> bool" where
  "is_lower_hex c = (97 \<le> (of_char c :: nat) \<and> (of_char c :: nat) \<le> 102)"

definition is_upper_hex :: "char \<Rightarrow> bool" where
  "is_upper_hex c = (65 \<le> (of_char c :: nat) \<and> (of_char c :: nat) \<le> 70)"

definition is_hex :: "char \<Rightarrow> bool" where
  "is_hex c = (is_digit c \<or> is_lower_hex c \<or> is_upper_hex c)"

text \<open>\<open>\s\<close> of a Python \<open>str\<close> pattern, within ASCII: tab to carriage return, the four
  separators \<open>0x1c\<close> to \<open>0x1f\<close>, and the space.\<close>

definition is_space :: "char \<Rightarrow> bool" where
  "is_space c = ((9 \<le> (of_char c :: nat) \<and> (of_char c :: nat) \<le> 13)
                 \<or> (28 \<le> (of_char c :: nat) \<and> (of_char c :: nat) \<le> 32))"

text \<open>\<open>s.strip()\<close>: whitespace removed at both ends.\<close>

definition py_strip :: "string \<Rightarrow> string" where
  "py_strip s = rev (dropWhile is_space (rev (dropWhile is_space s)))"

text \<open>\<open>\w\<close>: letters, digits and the underscore.\<close>

definition is_word :: "char \<Rightarrow> bool" where
  "is_word c = (is_digit c \<or> is_upper c \<or> is_lower c \<or> c = CHR ''_'')"

definition to_lower :: "char \<Rightarrow> char" where
  "to_lower c = (if is_upper c then char_of ((of_char c :: nat) + 32) else c)"

text \<open>\<open>int(s)\<close> on a string of decimal digits, as the parsers apply it to a \<open>(\d+)\<close> group.\<close>

definition digit_val :: "char \<Rightarrow> int" where
  "digit_val c = int (of_char c) - 48"

definition int_of_digits :: "string \<Rightarrow> int" where
  "int_of_digits s = foldl (\<lambda>a c. 10 * a + digit_val c) 0 s"

section \<open>Regular expressions of the sources\<close>

text \<open>
  Every pattern in the sources is a sequence of single-character items (a literal
  character or a class), each with a quantifier, some of them captured as a group. Such
  a pattern is a list of tokens. \<open>re.search\<close> tries the start positions from the left;
  at each, the quantifiers are greedy and give back characters one at a time.
\<close>

datatype cclass =
    Lit char | Digit | Space | Word | NotSpace | WordOrSpace | Upper
  | HexDigit | HexLowerOrColon | ColonOrDash

text \<open>The quantifiers: none, \<open>?\<close>, \<open>*\<close>, \<open>+\<close>, \<open>{n}\<close> and \<open>{n,}\<close>.\<close>

datatype quant = One | Opt | Star | Plus | Times nat | AtLeast nat

datatype tok = Tok cclass quant | Cap cclass quant

text \<open>Whether a character is in a class; \<open>icase\<close> is the flag \<open>re.IGNORECASE\<close>.\<close>

fun in_class :: "bool \<Rightarrow> cclass \<Rightarrow> char \<Rightarrow> bool" where
  "in_class icase (Lit l) c = (if icase then to_lower c = to_lower l else c = l)"
| "in_class icase Digit c = is_digit c"
| "in_class icase Space c = is_space c"
| "in_class icase Word c = is_word c"
| "in_class icase NotSpace c = (\<not> is_space c)"
| "in_class icase WordOrSpace c = (is_word c \<or> is_space c)"
| "in_class icase Upper c = (if icase then is_upper c \<or> is_lower c else is_upper c)"
| "in_class icase HexDigit c = is_hex c"
| "in_class icase HexLowerOrColon c =
     (is_digit c \<or> is_lower_hex c \<or> c = CHR '':'' \<or> (icase \<and> is_upper_hex c))"
| "in_class icase ColonOrDash c = (c = CHR '':'' \<or> c = CHR ''-'')"

fun tok_class :: "tok \<Rightarrow> cclass" where
  "tok_class (Tok cl q) = cl"
| "tok_class (Cap cl q) = cl"

fun tok_quant :: "tok \<Rightarrow> quant" where
  "tok_quant (Tok cl q) = q"
| "tok_quant (Cap cl q) = q"

text \<open>Counting down from \<open>n\<close> to \<open>lo\<close>: the order in which a greedy quantifier tries its
  repetition counts.\<close>

fun down_to :: "nat \<Rightarrow> nat \<Rightarrow> nat list" where
  "down_to lo 0 = (if lo = 0 then [0] else [])"
| "down_to lo (Suc n) = (if lo \<le> Suc n then Suc n # down_to lo n else [])"

text \<open>The repetition counts a token may take on \<open>s\<close>, most preferred first.\<close>

definition counts :: "bool \<Rightarrow> tok \<Rightarrow> string \<Rightarrow> nat list" where
  "counts icase t s =
     (let avail = length (takeWhile (in_class icase (tok_class t)) s)
      in case tok_quant t of
           One \<Rightarrow> (if 1 \<le> avail then [1] else [])
         | Opt \<Rightarrow> (if 1 \<le> avail then [1, 0] else [0])
         | Star \<Rightarrow> down_to 0 avail
         | Plus \<Rightarrow> down_to 1 avail
         | Times n \<Rightarrow> (if n \<le> avail then [n] else [])
         | AtLeast n \<Rightarrow> down_to n avail)"

fun first_some :: "'a option list \<Rightarrow> 'a option" where
  "first_some [] = None"
| "first_some (None # xs) = first_some xs"
| "first_some (Some x # xs) = Some x"

fun capture :: "tok \<Rightarrow> string \<Rightarrow> string list \<Rightarrow> string list" where
  "capture (Tok cl q) chunk groups = groups"
| "capture (Cap cl q) chunk groups = chunk # groups"

text \<open>Matching a pattern at the start of \<open>s\<close>; the result is the list of captured groups.\<close>

fun match_here :: "bool \<Rightarrow> tok list \<Rightarrow> string \<Rightarrow> string list option" where
  "match_here icase [] s = Some []"
| "match_here icase (t # ts) s =
     first_some
       (map (\<lambda>k. map_option (capture t (take k s)) (match_here icase ts (drop k s)))
          (counts icase t s))"

text \<open>\<open>re.search(pattern, s, flags)\<close>: the groups of the leftmost match, or \<open>None\<close>.\<close>

fun search_from :: "bool \<Rightarrow> tok list \<Rightarrow> string \<Rightarrow> string list option" where
  "search_from icase pat [] = match_here icase pat []"
| "search_from icase pat (c # cs) =
     (case match_here icase pat (c # cs) of
        Some groups \<Rightarrow> Some groups
      | None \<Rightarrow> search_from icase pat cs)"

definition re_search :: "bool \<Rightarrow> tok list \<Rightarrow> string \<Rightarrow> string list option" where
  "re_search icase pat s = search_from icase pat s"

text \<open>A literal word as tokens.\<close>

definition lits :: "string \<Rightarrow> tok list" where
  "lits w = map (\<lambda>c. Tok (Lit c) One) w"

fun is_cap :: "tok \<Rightarrow> bool" where
  "is_cap (Cap cl q) = True"
| "is_cap (Tok cl q) = False"

section \<open>The operating system as seen through \<open>subprocess\<close>\<close>

text \<open>A process handle returned by \<open>subprocess.Popen\<close>, identified by its pid.\<close>

type_synonym process = nat

text \<open>
  What a launch hands to the operating system: \<open>Exec argv\<close> is a call with an argument
  list and no shell, \<open>Shell s\<close> is a call with one string and \<open>shell=True\<close>.
\<close>

datatype launch = Exec "string list" | Shell string

text \<open>
  \<open>subprocess.run\<close> either returns a \<open>CompletedProcess\<close> (of which the sources read the
  return code) or raises.
\<close>

datatype run_outcome = CompletedProcess int | RunRaises py_error

text \<open>
  The environment of one call: what \<open>Popen\<close> does with an argument list, what
  \<open>subprocess.run\<close> does with an argument list and a timeout in seconds, whether a path
  exists, and the text \<open>str(e)\<close> of an exception the interpreter or the operating
  system raised.
\<close>

record os_env =
  popen :: "string list \<Rightarrow> py_error + process"
  run :: "string list \<Rightarrow> real \<Rightarrow> run_outcome"
  path_exists :: "string \<Rightarrow> bool"
  exc_text :: "py_error \<Rightarrow> string"

text \<open>\<open>str(e)\<close>: the message of a \<open>RuntimeError\<close> the sources raise is its argument.\<close>

definition py_str_exc :: "os_env \<Rightarrow> py_error \<Rightarrow> string" where
  "py_str_exc env e = (case e of RuntimeError m \<Rightarrow> m | _ \<Rightarrow> exc_text env e)"

text \<open>
  The handler tuple \<open>except (subprocess.TimeoutExpired, FileNotFoundError)\<close> of the
  availability probes.
\<close>

definition probe_catches :: "py_error \<Rightarrow> bool" where
  "probe_catches e = (e = TimeoutExpired \<or> e = FileNotFoundError)"

subsection \<open>Availability probes\<close>

text \<open>\<open>CrunchIntegration._check_crunch\<close>\<close>

definition check_crunch :: "os_env \<Rightarrow> py_error + bool" where
  "check_crunch env =
     (case run env [''crunch'', ''-h''] 5 of
        CompletedProcess returncode \<Rightarrow> Inr (returncode = 0)
      | RunRaises e \<Rightarrow> if probe_catches e then Inr False else Inl e)"

text \<open>
  \<open>CowpattyIntegration._check_cowpatty\<close>: cowpatty exits with an error when called
  without arguments, so any completed run counts as available.
\<close>

definition check_cowpatty :: "os_env \<Rightarrow> py_error + bool" where
  "check_cowpatty env =
     (case run env [''cowpatty''] 5 of
        CompletedProcess returncode \<Rightarrow> Inr True
      | RunRaises e \<Rightarrow> if probe_catches e then Inr False else Inl e)"

text \<open>\<open>CowpattyIntegration._check_genpmk\<close>\<close>

definition check_genpmk :: "os_env \<Rightarrow> py_error + bool" where
  "check_genpmk env =
     (case run env [''genpmk''] 5 of
        CompletedProcess returncode \<Rightarrow> Inr True
      | RunRaises e \<Rightarrow> if probe_catches e then Inr False else Inl e)"

text \<open>
  \<open>AircrackSuite._check_tools_availability\<close>: the loop over the tool names fills the
  dictionary \<open>status\<close>; an exception that the handler does not catch ends the loop and
  the function.
\<close>

definition aircrack_tools :: "string list" where
  "aircrack_tools =
     [''aircrack-ng'', ''airodump-ng'', ''aireplay-ng'', ''airmon-ng'',
      ''airbase-ng'', ''airdecap-ng'', ''airdecloak-ng'', ''airolib-ng'',
      ''airserv-ng'', ''buddy-ng'', ''easside-ng'', ''tkiptun-ng'', ''wesside-ng'']"

fun check_tools_loop ::
  "os_env \<Rightarrow> string list \<Rightarrow> (string \<times> bool) list \<Rightarrow> py_error + (string \<times> bool) list" where
  "check_tools_loop env [] status = Inr status"
| "check_tools_loop env (tool # tools) status =
     (case run env [tool, ''--help''] 5 of
        CompletedProcess returncode \<Rightarrow>
          check_tools_loop env tools (AList.update tool (returncode = 0) status)
      | RunRaises e \<Rightarrow>
          if probe_catches e
          then check_tools_loop env tools (AList.update tool False status)
          else Inl e)"

definition check_tools_availability :: "os_env \<Rightarrow> py_error + (string \<times> bool) list" where
  "check_tools_availability env = check_tools_loop env aircrack_tools []"

text \<open>An environment in which every executable is found but may not be executed.\<close>

definition env_not_executable :: os_env where
  "env_not_executable =
     \<lparr>popen = (\<lambda>argv. Inl PermissionError),
      run = (\<lambda>argv timeout. RunRaises PermissionError),
      path_exists = (\<lambda>path. True),
      exc_text = (\<lambda>e. ''[Errno 13] Permission denied'')\<rparr>"

text \<open>An environment in which no probed executable exists.\<close>

definition env_nothing_installed :: os_env where
  "env_nothing_installed =
     \<lparr>popen = (\<lambda>argv. Inl FileNotFoundError),
      run = (\<lambda>argv timeout. RunRaises FileNotFoundError),
      path_exists = (\<lambda>path. False),
      exc_text = (\<lambda>e. ''[Errno 2] No such file or directory'')\<rparr>"

subsection \<open>Stopping a child process\<close>

text \<open>
  How the handle answers the three calls a stop makes: each returns or raises.
  \<open>wait(timeout=5)\<close> raises \<open>TimeoutExpired\<close> when the child has not exited in time.
\<close>

datatype outcome = Returns | Raises py_error

record proc_env =
  on_terminate :: outcome
  on_wait :: outcome
  on_kill :: outcome

datatype proc_action = Terminate process | Wait process real | Kill process

text \<open>
  The body shared, letter for letter, by \<open>CrunchIntegration.stop_generation\<close>,
  \<open>WifiteIntegration.stop_attack\<close> and \<open>CowpattyIntegration.stop_attack\<close>:
  \<^verbatim>\<open>
  if self.current_process:
      try:
          self.current_process.terminate()
          self.current_process.wait(timeout=5)
          return True
      except subprocess.TimeoutExpired:
          self.current_process.kill()
          return True
      except Exception:
          return False
  return False
  \<close>
  The result is the returned boolean, or the exception that escapes, together with the
  calls made on the handle in order. An exception raised by \<open>kill\<close> inside the handler is
  not caught by the sibling handler.
\<close>

definition stop_handlers ::
  "proc_env \<Rightarrow> process \<Rightarrow> py_error \<Rightarrow> proc_action list \<Rightarrow> (py_error + bool) \<times> proc_action list" where
  "stop_handlers penv p e done =
     (if e = TimeoutExpired
      then (case on_kill penv of
              Returns \<Rightarrow> (Inr True, done @ [Kill p])
            | Raises e' \<Rightarrow> (Inl e', done @ [Kill p]))
      else (Inr False, done))"

definition stop_current ::
  "process option \<Rightarrow> proc_env \<Rightarrow> (py_error + bool) \<times> proc_action list" where
  "stop_current cur penv =
     (case cur of
        None \<Rightarrow> (Inr False, [])
      | Some p \<Rightarrow>
          (case on_terminate penv of
             Raises e \<Rightarrow> stop_handlers penv p e [Terminate p]
           | Returns \<Rightarrow>
               (case on_wait penv of
                  Raises e \<Rightarrow> stop_handlers penv p e [Terminate p, Wait p 5]
                | Returns \<Rightarrow> (Inr True, [Terminate p, Wait p 5]))))"

text \<open>The child exits within the grace period.\<close>

definition proc_exits :: proc_env where
  "proc_exits = \<lparr>on_terminate = Returns, on_wait = Returns, on_kill = Returns\<rparr>"

text \<open>The child ignores \<open>SIGTERM\<close> for longer than the grace period.\<close>

definition proc_ignores_term :: proc_env where
  "proc_ignores_term =
     \<lparr>on_terminate = Returns, on_wait = Raises TimeoutExpired, on_kill = Returns\<rparr>"

text \<open>The signal cannot be delivered: \<open>terminate\<close> raises \<open>PermissionError\<close>.\<close>

definition proc_signal_denied :: proc_env where
  "proc_signal_denied =
     \<lparr>on_terminate = Raises PermissionError, on_wait = Returns, on_kill = Returns\<rparr>"

text \<open>Every tool is installed, answers its help flag with success, and starts as pid 4242.\<close>

definition env_installed :: os_env where
  "env_installed =
     \<lparr>popen = (\<lambda>argv. Inr 4242),
      run = (\<lambda>argv timeout. CompletedProcess 0),
      path_exists = (\<lambda>path. True),
      exc_text = (\<lambda>e. [])\<rparr>"

text \<open>Every invocation through \<open>subprocess.run\<close> exceeds its timeout.\<close>

definition env_hangs :: os_env where
  "env_hangs =
     \<lparr>popen = (\<lambda>argv. Inr 4242),
      run = (\<lambda>argv timeout. RunRaises TimeoutExpired),
      path_exists = (\<lambda>path. True),
      exc_text = (\<lambda>e. ''timed out'')\<rparr>"


section \<open>Progress parsers\<close>

text \<open>
  The values the parsers put into their result dictionaries, and a dictionary with
  string keys as an association list in insertion order. \<open>d.get(k)\<close> is \<open>map_of d k\<close>.
\<close>

datatype pyval = VInt int | VStr string

type_synonym info = "(string \<times> pyval) list"


















subsection \<open>The parsers as ordered matcher lists\<close>

text \<open>
  The specification's reading of a parser: an ordered list of matchers, each a pattern
  (with its case flag) and the event it yields from the captured groups. The first
  matcher whose pattern matches wins and yields one event; if none matches, the line
  yields no event.
\<close>

record matcher =
  icase :: bool
  pat :: "tok list"
  event :: "string list \<Rightarrow> info"






section \<open>crunch\_integration.py: CrunchIntegration\<close>

text \<open>
  Every integration class keeps the handle of the process it started last in
  \<open>self.current_process\<close> (\<open>None\<close> until the first start; never reset afterwards).
\<close>

record integration =
  current_process :: "process option"

record crunch_integration = integration +
  crunch_available :: bool

text \<open>
  \<open>estimate_wordlist_size\<close>: the loop \<open>for length in range(min_length, max_length + 1):
  total += charset_size ** length\<close>, run over the list of lengths. The function takes
  \<open>self\<close> and returns it, since the source neither reads nor writes a field.
\<close>

fun estimate_loop :: "int \<Rightarrow> int list \<Rightarrow> pynum \<Rightarrow> py_error + pynum" where
  "estimate_loop charset_size [] tot = Inr tot"
| "estimate_loop charset_size (l # ls) tot =
     (case py_pow charset_size l of
        Inl e \<Rightarrow> Inl e
      | Inr p \<Rightarrow> estimate_loop charset_size ls (py_add tot p))"

definition estimate_wordlist_size ::
  "crunch_integration \<Rightarrow> int \<Rightarrow> int \<Rightarrow> int \<Rightarrow> (py_error + pynum) \<times> crunch_integration" where
  "estimate_wordlist_size self min_length max_length charset_size =
     (estimate_loop charset_size [min_length..max_length] (PyInt 0), self)"

text \<open>\<open>CrunchIntegration.stop_generation\<close>\<close>

definition stop_generation ::
  "crunch_integration \<Rightarrow> proc_env \<Rightarrow> (py_error + bool) \<times> proc_action list" where
  "stop_generation self penv = stop_current (current_process self) penv"

text \<open>
  The keyword options \<open>generate_wordlist\<close> reads from \<open>**options\<close>: \<open>count\<close> (absent, or
  an int that counts when it is not zero) and the four flags.
\<close>

record crunch_options =
  opt_count :: "int option"
  opt_duplicate :: bool
  opt_invert :: bool
  opt_literal :: bool
  opt_permute :: bool

definition no_options :: crunch_options where
  "no_options =
     \<lparr>opt_count = None, opt_duplicate = False, opt_invert = False,
      opt_literal = False, opt_permute = False\<rparr>"

text \<open>The argument vector \<open>cmd\<close> that \<open>generate_wordlist\<close> builds.\<close>

definition crunch_cmd ::
  "int \<Rightarrow> int \<Rightarrow> string \<Rightarrow> string \<Rightarrow> string option \<Rightarrow> crunch_options \<Rightarrow> string list" where
  "crunch_cmd min_length max_length charset output_file pattern options =
     [''crunch'', str_int min_length, str_int max_length, charset, ''-o'', output_file]
     @ (case pattern of
          Some p \<Rightarrow> if p \<noteq> [] then [''-t'', p] else []
        | None \<Rightarrow> [])
     @ (case opt_count options of
          Some n \<Rightarrow> if n \<noteq> 0 then [''-c'', str_int n] else []
        | None \<Rightarrow> [])
     @ (if opt_duplicate options then [''-d''] else [])
     @ (if opt_invert options then [''-i''] else [])
     @ (if opt_literal options then [''-l''] else [])
     @ (if opt_permute options then [''-p''] else [])"

text \<open>
  \<open>CrunchIntegration.generate_wordlist\<close>: the availability check, then the command, then
  \<open>subprocess.Popen(cmd, ...)\<close>. The result is the handle or the exception, the
  integration afterwards, and the calls made to the process launcher.
\<close>

definition generate_wordlist ::
  "crunch_integration \<Rightarrow> os_env \<Rightarrow> int \<Rightarrow> int \<Rightarrow> string \<Rightarrow> string \<Rightarrow> string option
   \<Rightarrow> crunch_options \<Rightarrow> (py_error + process) \<times> crunch_integration \<times> launch list" where
  "generate_wordlist self env min_length max_length charset output_file pattern options =
     (if \<not> crunch_available self
      then (Inl (RuntimeError ''Crunch not available''), self, [])
      else
        (let cmd = crunch_cmd min_length max_length charset output_file pattern options
         in case popen env cmd of
              Inl e \<Rightarrow> (Inl e, self, [Exec cmd])
            | Inr p \<Rightarrow> (Inr p, self\<lparr>current_process := Some p\<rparr>, [Exec cmd])))"

definition lowercase_letters :: string where
  "lowercase_letters = ''abcdefghijklmnopqrstuvwxyz''"

definition uppercase_letters :: string where
  "uppercase_letters = ''ABCDEFGHIJKLMNOPQRSTUVWXYZ''"

definition decimal_digits :: string where
  "decimal_digits = ''0123456789''"

text \<open>The symbol set of \<open>generate_pattern_based_wordlist\<close>; backslash and the two quote
  characters are written by their codes.\<close>

definition symbol_chars :: string where
  "symbol_chars =
     ''!@#$%^&*()-_+=~`[]{}|'' @ [CHR 0x5C] @ '':;'' @ [CHR 0x22, CHR 0x27] @ ''<>,.?/''"

text \<open>\<open>CrunchIntegration.generate_pattern_based_wordlist\<close>\<close>

definition generate_pattern_based_wordlist ::
  "crunch_integration \<Rightarrow> os_env \<Rightarrow> string \<Rightarrow> string
   \<Rightarrow> (py_error + process) \<times> crunch_integration \<times> launch list" where
  "generate_pattern_based_wordlist self env pattern output_file =
     (let charset =
            (if CHR ''@'' \<in> set pattern then lowercase_letters else [])
            @ (if CHR '','' \<in> set pattern then uppercase_letters else [])
            @ (if CHR ''%'' \<in> set pattern then decimal_digits else [])
            @ (if CHR ''^'' \<in> set pattern then symbol_chars else []);
          min_length = int (length pattern);
          max_length = int (length pattern)
      in generate_wordlist self env min_length max_length charset output_file
           (Some pattern) no_options)"

section \<open>crunch\_integration.py: AdvancedCrunchController\<close>

text \<open>
  The strategy dictionary \<open>_analyze_target\<close> returns, by its \<open>'type'\<close>: \<open>'pattern'\<close> with
  the keys \<open>pattern\<close> and \<open>description\<close>, or \<open>'charset'\<close> with \<open>charset\<close>, \<open>min_length\<close>,
  \<open>max_length\<close> and \<open>description\<close>.
\<close>

datatype strategy =
    PatternStrategy string string
  | CharsetStrategy string int int string

text \<open>\<open>\d{8}\<close> and \<open>[A-Z]{3,}\<close>, searched without flags.\<close>

definition eight_digits_pattern :: "tok list" where
  "eight_digits_pattern = [Tok Digit (Times 8)]"

definition uppercase_run_pattern :: "tok list" where
  "uppercase_run_pattern = [Tok Upper (AtLeast 3)]"

text \<open>\<open>AdvancedCrunchController._analyze_target\<close>; \<open>target_info\<close> is a dictionary of
  strings.\<close>

definition analyze_target :: "(string \<times> string) list \<Rightarrow> strategy" where
  "analyze_target target_info =
     (let ssid = (case map_of target_info ''ssid'' of Some s \<Rightarrow> s | None \<Rightarrow> [])
      in if re_search False eight_digits_pattern ssid \<noteq> None
         then PatternStrategy ''@@@@@@@@'' ''Birthday pattern (8 digits)''
         else if re_search False uppercase_run_pattern ssid \<noteq> None
         then CharsetStrategy (uppercase_letters @ decimal_digits) 8 12 ''Mixed alphanumeric''
         else CharsetStrategy (lowercase_letters @ decimal_digits) 8 16
                ''Standard alphanumeric'')"

text \<open>
  The dictionary a controller keeps per job. The keys every family writes are the
  fields of \<open>job\<close>; a key that is absent from the dictionary is \<open>None\<close>, which is what
  \<open>info.get(key)\<close> returns for it.
\<close>

record job =
  process :: process
  start_time :: real
  status :: "string option"
  last_update :: "real option"
  progress :: "pyval option"
  result :: "info option"

record generation = job +
  output_file :: string
  strategy :: strategy

record crunch_controller =
  crunch :: crunch_integration
  active_generations :: "(string \<times> generation) list"

text \<open>
  \<open>AdvancedCrunchController.start_smart_wordlist_generation\<close>. \<open>t_id\<close> and \<open>t_start\<close>
  are the two readings of \<open>time.time()\<close>, for the id and for \<open>start_time\<close>. The branch
  on \<open>strategy['type']\<close> has a third arm in the source (\<open>generate_alphanumeric_wordlist\<close>)
  that no strategy of \<open>_analyze_target\<close> reaches. Every exception of the \<open>try\<close> block is
  re-raised as \<open>RuntimeError\<close>. The monitor thread that the source starts last acts
  later, through \<open>_handle_progress\<close>.
\<close>

definition start_smart_wordlist_generation ::
  "crunch_controller \<Rightarrow> os_env \<Rightarrow> real \<Rightarrow> real \<Rightarrow> (string \<times> string) list \<Rightarrow> string
   \<Rightarrow> (py_error + string) \<times> crunch_controller \<times> launch list" where
  "start_smart_wordlist_generation self env t_id t_start target_info output_path =
     (let generation_id = ''crunch_'' @ str_int (py_int_of_float t_id);
          strat = analyze_target target_info;
          (started, crunch', launches) =
            (case strat of
               PatternStrategy pattern description \<Rightarrow>
                 generate_pattern_based_wordlist (crunch self) env pattern output_path
             | CharsetStrategy charset min_length max_length description \<Rightarrow>
                 generate_wordlist (crunch self) env min_length max_length charset output_path
                   None no_options)
      in case started of
           Inl e \<Rightarrow>
             (Inl (RuntimeError (''Failed to start wordlist generation: '' @ py_str_exc env e)),
              self\<lparr>crunch := crunch'\<rparr>, launches)
         | Inr p \<Rightarrow>
             (Inr generation_id,
              self\<lparr>crunch := crunch',
                   active_generations :=
                     AList.update generation_id
                       \<lparr>process = p, start_time = t_start, status = Some ''running'',
                        last_update = None, progress = None, result = None,
                        output_file = output_path, strategy = strat\<rparr>
                       (active_generations self)\<rparr>,
              launches))"

text \<open>
  \<open>AdvancedCrunchController._handle_progress\<close>, the callback of the monitor thread;
  \<open>now\<close> is the reading of \<open>time.time()\<close>.
\<close>

definition handle_progress :: "crunch_controller \<Rightarrow> real \<Rightarrow> string \<Rightarrow> info \<Rightarrow> crunch_controller" where
  "handle_progress self now generation_id info =
     (case map_of (active_generations self) generation_id of
        None \<Rightarrow> self
      | Some gen_info \<Rightarrow>
          (let stamped = gen_info\<lparr>last_update := Some now\<rparr>;
               updated =
                 (if map_of info ''status'' = Some (VStr ''completed'')
                  then stamped\<lparr>status := Some ''completed''\<rparr>
                  else if map_of info ''type'' = Some (VStr ''progress'')
                  then stamped\<lparr>progress :=
                         Some (case map_of info ''percentage'' of Some v \<Rightarrow> v | None \<Rightarrow> VInt 0)\<rparr>
                  else stamped)
           in self\<lparr>active_generations :=
                     AList.update generation_id updated (active_generations self)\<rparr>))"

text \<open>\<open>AdvancedCrunchController.get_generation_status\<close>\<close>

definition get_generation_status :: "crunch_controller \<Rightarrow> string \<Rightarrow> generation option" where
  "get_generation_status self generation_id = map_of (active_generations self) generation_id"

text \<open>
  \<open>AdvancedCrunchController.stop_generation\<close>: it stops the integration's current
  process and, on success, marks the job \<open>'stopped'\<close>.
\<close>

definition controller_stop_generation ::
  "crunch_controller \<Rightarrow> proc_env \<Rightarrow> string
   \<Rightarrow> (py_error + bool) \<times> crunch_controller \<times> proc_action list" where
  "controller_stop_generation self penv generation_id =
     (case map_of (active_generations self) generation_id of
        None \<Rightarrow> (Inr False, self, [])
      | Some gen_info \<Rightarrow>
          (case stop_generation (crunch self) penv of
             (Inr True, actions) \<Rightarrow>
               (Inr True,
                self\<lparr>active_generations :=
                       AList.update generation_id (gen_info\<lparr>status := Some ''stopped''\<rparr>)
                         (active_generations self)\<rparr>,
                actions)
           | (Inr False, actions) \<Rightarrow> (Inr False, self, actions)
           | (Inl e, actions) \<Rightarrow> (Inl e, self, actions)))"

text \<open>
  The sweep shared by the three controllers, which differ in the list of statuses and in
  the window:
  \<^verbatim>\<open>
  for job_id, info in self.active.items():
      if info.get('status') in statuses:
          if current_time - info.get('last_update', 0) > window:
              to_remove.append(job_id)
  for job_id in to_remove:
      del self.active[job_id]
  \<close>
\<close>

fun ids_to_remove ::
  "string list \<Rightarrow> real \<Rightarrow> real \<Rightarrow> (string \<times> ('a job_scheme)) list \<Rightarrow> string list" where
  "ids_to_remove statuses window current_time [] = []"
| "ids_to_remove statuses window current_time ((job_id, info) # items) =
     (if (case status info of None \<Rightarrow> False | Some s \<Rightarrow> s \<in> set statuses)
      then (if current_time - (case last_update info of None \<Rightarrow> 0 | Some t \<Rightarrow> t) > window
            then job_id # ids_to_remove statuses window current_time items
            else ids_to_remove statuses window current_time items)
      else ids_to_remove statuses window current_time items)"

fun delete_all :: "string list \<Rightarrow> (string \<times> 'v) list \<Rightarrow> (string \<times> 'v) list" where
  "delete_all [] active = active"
| "delete_all (job_id # to_remove) active = delete_all to_remove (AList.delete job_id active)"

definition sweep ::
  "string list \<Rightarrow> real \<Rightarrow> real \<Rightarrow> (string \<times> ('a job_scheme)) list
   \<Rightarrow> (string \<times> ('a job_scheme)) list" where
  "sweep statuses window current_time active =
     delete_all (ids_to_remove statuses window current_time active) active"

text \<open>\<open>AdvancedCrunchController.cleanup_generations\<close>: completed or stopped, 5 minutes.\<close>

definition cleanup_generations :: "crunch_controller \<Rightarrow> real \<Rightarrow> crunch_controller" where
  "cleanup_generations self current_time =
     self\<lparr>active_generations :=
            sweep [''completed'', ''stopped''] 300 current_time (active_generations self)\<rparr>"

text \<open>
  The condition under which the sweep drops a job: its status is one of the listed
  ones and the time since its last update, read as 0 when none is recorded, exceeds
  the window.
\<close>

definition stale :: "string list \<Rightarrow> real \<Rightarrow> real \<Rightarrow> 'a job_scheme \<Rightarrow> bool" where
  "stale statuses window current_time info =
     ((case status info of None \<Rightarrow> False | Some s \<Rightarrow> s \<in> set statuses)
      \<and> current_time - (case last_update info of None \<Rightarrow> 0 | Some t \<Rightarrow> t) > window)"

section \<open>wifite\_integration.py: WifiteIntegration\<close>

record wifite_integration = integration +
  wifite_available :: bool
  wifite2_available :: bool


section \<open>cowpatty\_integration.py\<close>

record cowpatty_integration = integration +
  cowpatty_available :: bool
  genpmk_available :: bool

text \<open>
  \<open>CowpattyIntegration.precompute_pmk\<close>: runs \<open>genpmk\<close> to completion with a timeout of
  300 seconds. Only \<open>TimeoutExpired\<close> is handled.
\<close>

definition precompute_pmk ::
  "cowpatty_integration \<Rightarrow> os_env \<Rightarrow> string \<Rightarrow> string \<Rightarrow> string option
   \<Rightarrow> (py_error + string option) \<times> launch list" where
  "precompute_pmk self env ssid wordlist out_file =
     (if \<not> genpmk_available self then (Inr None, [])
      else
        (let out = (case out_file of
                      Some f \<Rightarrow> if f \<noteq> [] then f
                                else ''/tmp/fern-log/cowpatty_'' @ ssid @ ''_pmk.txt''
                    | None \<Rightarrow> ''/tmp/fern-log/cowpatty_'' @ ssid @ ''_pmk.txt'');
             cmd = [''genpmk'', ''-f'', wordlist, ''-d'', out, ''-s'', ssid]
         in case run env cmd 300 of
              CompletedProcess returncode \<Rightarrow>
                (if returncode = 0 \<and> path_exists env out then (Inr (Some out), [Exec cmd])
                 else (Inr None, [Exec cmd]))
            | RunRaises e \<Rightarrow>
                (if e = TimeoutExpired then (Inr None, [Exec cmd]) else (Inl e, [Exec cmd]))))"

text \<open>\<open>CowpattyIntegration.attack_with_pmk_file\<close>\<close>

definition attack_with_pmk_file ::
  "cowpatty_integration \<Rightarrow> os_env \<Rightarrow> string \<Rightarrow> string \<Rightarrow> string
   \<Rightarrow> (py_error + process) \<times> cowpatty_integration \<times> launch list" where
  "attack_with_pmk_file self env pmk_file capture_file ssid =
     (if \<not> cowpatty_available self
      then (Inl (RuntimeError ''Cowpatty not available''), self, [])
      else
        (let cmd = [''cowpatty'', ''-d'', pmk_file, ''-r'', capture_file, ''-s'', ssid]
         in case popen env cmd of
              Inl e \<Rightarrow> (Inl e, self, [Exec cmd])
            | Inr p \<Rightarrow> (Inr p, self\<lparr>current_process := Some p\<rparr>, [Exec cmd])))"

text \<open>\<open>CowpattyIntegration.attack_with_wordlist\<close>\<close>

definition attack_with_wordlist ::
  "cowpatty_integration \<Rightarrow> os_env \<Rightarrow> string \<Rightarrow> string \<Rightarrow> string
   \<Rightarrow> (py_error + process) \<times> cowpatty_integration \<times> launch list" where
  "attack_with_wordlist self env wordlist capture_file ssid =
     (if \<not> cowpatty_available self
      then (Inl (RuntimeError ''Cowpatty not available''), self, [])
      else
        (let cmd = [''cowpatty'', ''-f'', wordlist, ''-r'', capture_file, ''-s'', ssid]
         in case popen env cmd of
              Inl e \<Rightarrow> (Inl e, self, [Exec cmd])
            | Inr p \<Rightarrow> (Inr p, self\<lparr>current_process := Some p\<rparr>, [Exec cmd])))"

record cowpatty_job = job +
  job_ssid :: string
  job_capture_file :: string
  job_wordlist :: string

record cowpatty_controller =
  cowpatty :: cowpatty_integration
  active_attacks :: "(string \<times> cowpatty_job) list"

text \<open>
  \<open>AdvancedCowpattyController.start_optimized_attack\<close>; \<open>t_id\<close> and \<open>t_start\<close> are the two
  readings of \<open>time.time()\<close>.
\<close>

definition start_optimized_attack ::
  "cowpatty_controller \<Rightarrow> os_env \<Rightarrow> real \<Rightarrow> real \<Rightarrow> string \<Rightarrow> string \<Rightarrow> string \<Rightarrow> bool
   \<Rightarrow> (py_error + string) \<times> cowpatty_controller \<times> launch list" where
  "start_optimized_attack self env t_id t_start ssid capture_file wordlist use_precomputation =
     (let attack_id = ''cowpatty_'' @ ssid @ ''_'' @ str_int (py_int_of_float t_id);
          (started, cowpatty', launches) =
            (if use_precomputation \<and> genpmk_available (cowpatty self)
             then (case precompute_pmk (cowpatty self) env ssid wordlist None of
                     (Inl e, ls) \<Rightarrow> (Inl e, cowpatty self, ls)
                   | (Inr pmk_file, ls) \<Rightarrow>
                       (case (case pmk_file of
                                Some f \<Rightarrow>
                                  if f \<noteq> []
                                  then attack_with_pmk_file (cowpatty self) env f capture_file ssid
                                  else attack_with_wordlist (cowpatty self) env wordlist
                                         capture_file ssid
                              | None \<Rightarrow>
                                  attack_with_wordlist (cowpatty self) env wordlist
                                    capture_file ssid) of
                          (r, c, ls') \<Rightarrow> (r, c, ls @ ls')))
             else attack_with_wordlist (cowpatty self) env wordlist capture_file ssid)
      in case started of
           Inl e \<Rightarrow>
             (Inl (RuntimeError (''Failed to start cowpatty attack: '' @ py_str_exc env e)),
              self\<lparr>cowpatty := cowpatty'\<rparr>, launches)
         | Inr p \<Rightarrow>
             (Inr attack_id,
              self\<lparr>cowpatty := cowpatty',
                   active_attacks :=
                     AList.update attack_id
                       \<lparr>process = p, start_time = t_start, status = Some ''running'',
                        last_update = None, progress = None, result = None,
                        job_ssid = ssid, job_capture_file = capture_file, job_wordlist = wordlist\<rparr>
                       (active_attacks self)\<rparr>,
              launches))"

text \<open>\<open>AdvancedCowpattyController.cleanup_attacks\<close>: completed, stopped or failed,
  10 minutes.\<close>

definition cleanup_attacks :: "cowpatty_controller \<Rightarrow> real \<Rightarrow> cowpatty_controller" where
  "cleanup_attacks self current_time =
     self\<lparr>active_attacks :=
            sweep [''completed'', ''stopped'', ''failed''] 600 current_time
              (active_attacks self)\<rparr>"

section \<open>wifite\_integration.py: WifiteController\<close>

record wifite_job = job +
  bssid :: string
  attack_type :: string

record wifite_controller =
  wifite :: wifite_integration
  wifite_attacks :: "(string \<times> wifite_job) list"

text \<open>\<open>WifiteController.cleanup_completed_attacks\<close> on \<open>self.active_attacks\<close>: completed
  or stopped, 5 minutes.\<close>

definition cleanup_completed_attacks :: "wifite_controller \<Rightarrow> real \<Rightarrow> wifite_controller" where
  "cleanup_completed_attacks self current_time =
     self\<lparr>wifite_attacks :=
            sweep [''completed'', ''stopped''] 300 current_time (wifite_attacks self)\<rparr>"

section \<open>Concrete states\<close>

text \<open>A crunch controller right after construction on a machine with crunch.\<close>

definition crunch_controller0 :: crunch_controller where
  "crunch_controller0 =
     \<lparr>crunch = \<lparr>current_process = None, crunch_available = True\<rparr>,
      active_generations = []\<rparr>"

text \<open>A crunch controller constructed where the probe of crunch failed.\<close>

definition crunch_controller_unavailable :: crunch_controller where
  "crunch_controller_unavailable =
     \<lparr>crunch = \<lparr>current_process = None, crunch_available = False\<rparr>,
      active_generations = []\<rparr>"

text \<open>A cowpatty controller constructed where \<open>genpmk\<close> was found and \<open>cowpatty\<close> was not.\<close>

definition cowpatty_controller_genpmk_only :: cowpatty_controller where
  "cowpatty_controller_genpmk_only =
     \<lparr>cowpatty = \<lparr>current_process = None, cowpatty_available = False,
                  genpmk_available = True\<rparr>,
      active_attacks = []\<rparr>"

definition cowpatty_controller0 :: cowpatty_controller where
  "cowpatty_controller0 =
     \<lparr>cowpatty = \<lparr>current_process = None, cowpatty_available = True,
                  genpmk_available = False\<rparr>,
      active_attacks = []\<rparr>"

text \<open>
  The crunch controller after a first start at clock reading 1000.2 for the target
  \<open>home\<close>, and after a second start at 1000.7 for the target \<open>office\<close>.
\<close>

definition crunch_after_first_start :: crunch_controller where
  "crunch_after_first_start =
     \<lparr>crunch = \<lparr>current_process = Some 4242, crunch_available = True\<rparr>,
      active_generations =
        [(''crunch_1000'',
          \<lparr>process = 4242, start_time = 10003 / 10, status = Some ''running'',
           last_update = None, progress = None, result = None,
           output_file = ''a.txt'',
           strategy = CharsetStrategy (lowercase_letters @ decimal_digits) 8 16
                        ''Standard alphanumeric''\<rparr>)]\<rparr>"

definition crunch_after_second_start :: crunch_controller where
  "crunch_after_second_start =
     \<lparr>crunch = \<lparr>current_process = Some 4242, crunch_available = True\<rparr>,
      active_generations =
        [(''crunch_1000'',
          \<lparr>process = 4242, start_time = 5004 / 5, status = Some ''running'',
           last_update = None, progress = None, result = None,
           output_file = ''b.txt'',
           strategy = CharsetStrategy (lowercase_letters @ decimal_digits) 8 16
                        ''Standard alphanumeric''\<rparr>)]\<rparr>"

section \<open>Operations on a crunch job\<close>

text \<open>
  What can happen to a job after its start: the monitor thread calls
  \<open>_handle_progress\<close> with a parsed progress dictionary or, when the child has exited,
  with \<open>{'status': 'completed'}\<close>; a caller requests a stop. Each callback carries
  the reading of the clock, each stop the behaviour of the handle.
\<close>

datatype job_op = Callback real info | StopRequest proc_env

definition completion_event :: info where
  "completion_event = [(''status'', VStr ''completed'')]"

fun apply_op :: "crunch_controller \<Rightarrow> string \<Rightarrow> job_op \<Rightarrow> crunch_controller" where
  "apply_op self generation_id (Callback now info) =
     handle_progress self now generation_id info"
| "apply_op self generation_id (StopRequest penv) =
     fst (snd (controller_stop_generation self penv generation_id))"

fun run_ops :: "crunch_controller \<Rightarrow> string \<Rightarrow> job_op list \<Rightarrow> crunch_controller" where
  "run_ops self generation_id [] = self"
| "run_ops self generation_id (op # ops) =
     run_ops (apply_op self generation_id op) generation_id ops"

text \<open>The \<open>status\<close> entry of a job, \<open>None\<close> when the registry has no such job.\<close>

definition job_status :: "crunch_controller \<Rightarrow> string \<Rightarrow> string option" where
  "job_status self generation_id =
     (case map_of (active_generations self) generation_id of
        None \<Rightarrow> None
      | Some gen_info \<Rightarrow> status gen_info)"

section \<open>Concrete registries for the sweep\<close>

definition job0 :: generation where
  "job0 =
     \<lparr>process = 4242, start_time = 0, status = Some ''running'',
      last_update = Some 0, progress = None, result = None,
      output_file = ''a.txt'',
      strategy = CharsetStrategy (lowercase_letters @ decimal_digits) 8 16
                   ''Standard alphanumeric''\<rparr>"

text \<open>One job marked \<open>failed\<close> at time 0.\<close>

definition crunch_with_failed_job :: crunch_controller where
  "crunch_with_failed_job =
     \<lparr>crunch = \<lparr>current_process = Some 4242, crunch_available = True\<rparr>,
      active_generations = [(''crunch_0'', job0\<lparr>status := Some ''failed''\<rparr>)]\<rparr>"

text \<open>One job that was stopped before any callback recorded a last update.\<close>

definition crunch_just_stopped :: crunch_controller where
  "crunch_just_stopped =
     \<lparr>crunch = \<lparr>current_process = Some 4242, crunch_available = True\<rparr>,
      active_generations =
        [(''crunch_1700000000'', job0\<lparr>status := Some ''stopped'', last_update := None\<rparr>)]\<rparr>"

text \<open>A completed job and a running job, both last updated at time 0.\<close>

definition crunch_two_jobs :: crunch_controller where
  "crunch_two_jobs =
     \<lparr>crunch = \<lparr>current_process = Some 4242, crunch_available = True\<rparr>,
      active_generations =
        [(''crunch_0'', job0\<lparr>status := Some ''completed''\<rparr>), (''crunch_1'', job0)]\<rparr>"

section \<open>kali\_dependency\_manager.py: KaliDependencyManager\<close>

text \<open>
  \<open>subprocess.run(command, shell=True, capture_output=True, text=True, timeout=300)\<close>
  returns the return code with the two captured streams, or raises.
\<close>

datatype shell_outcome = ShellCompleted int string string | ShellRaises py_error

text \<open>
  The environment of the dependency manager: what the shell does with a command
  string, the effective user id, and the text \<open>str(e)\<close> of an exception.
\<close>

record kali_env =
  sh :: "string \<Rightarrow> real \<Rightarrow> shell_outcome"
  geteuid :: nat
  shell_exc_text :: "py_error \<Rightarrow> string"

text \<open>
  \<open>KaliDependencyManager._run_command\<close>: the command is one string, prefixed with
  \<open>sudo\<close> for a non-root user, and handed to the shell. The result is the triple the
  source returns and the call made to the launcher.
\<close>

definition run_command ::
  "kali_env \<Rightarrow> string \<Rightarrow> bool \<Rightarrow> (int \<times> string \<times> string) \<times> launch list" where
  "run_command kenv command sudo =
     (let command' = (if sudo \<and> geteuid kenv \<noteq> 0 then ''sudo '' @ command else command)
      in (case sh kenv command' 300 of
            ShellCompleted returncode out err \<Rightarrow> (returncode, out, err)
          | ShellRaises e \<Rightarrow>
              if e = TimeoutExpired then (- 1, [], ''Command timed out'')
              else (- 1, [],
                    (case e of RuntimeError m \<Rightarrow> m | _ \<Rightarrow> shell_exc_text kenv e)),
          [Shell command']))"

text \<open>\<open>KaliDependencyManager.update_package_lists\<close>, without its printed messages.\<close>

definition update_package_lists :: "kali_env \<Rightarrow> bool \<times> launch list" where
  "update_package_lists kenv =
     (case run_command kenv ''apt update'' True of
        ((exit_code, out, err), launches) \<Rightarrow> (exit_code = 0, launches))"




section \<open>macchanger\_integration.py\<close>

unbundle bit_operations_syntax

text \<open>
  \<open>int(s, 16)\<close> on a string: whitespace around it is ignored (for an ASCII string the
  six characters tab to carriage return and space); then an optional sign, an optional
  \<open>0x\<close> or \<open>0X\<close> (after which one underscore may follow), and hexadecimal digits with
  single underscores between them. Anything else is a \<open>ValueError\<close>.
\<close>

definition is_c_space :: "char \<Rightarrow> bool" where
  "is_c_space c = ((9 \<le> (of_char c :: nat) \<and> (of_char c :: nat) \<le> 13) \<or> c = CHR '' '')"

definition hex_val :: "char \<Rightarrow> int" where
  "hex_val c =
     (if is_digit c then int (of_char c) - 48
      else if is_lower_hex c then int (of_char c) - 87
      else int (of_char c) - 55)"

text \<open>Digits and underscores: \<open>prev\<close> tells whether the character before was a digit.\<close>

fun hex_digits_ok :: "bool \<Rightarrow> string \<Rightarrow> bool" where
  "hex_digits_ok prev [] = prev"
| "hex_digits_ok prev (c # cs) =
     (if c = CHR ''_'' then prev \<and> hex_digits_ok False cs
      else is_hex c \<and> hex_digits_ok True cs)"

definition py_int16 :: "string \<Rightarrow> py_error + int" where
  "py_int16 s =
     (let t = rev (dropWhile is_c_space (rev (dropWhile is_c_space s)));
          negative = (case t of c # r \<Rightarrow> c = CHR ''-'' | [] \<Rightarrow> False);
          u = (case t of
                 c # r \<Rightarrow> if c = CHR ''-'' \<or> c = CHR ''+'' then r else t
               | [] \<Rightarrow> t);
          v = (case u of
                 z # x # r \<Rightarrow>
                   if z = CHR ''0'' \<and> (x = CHR ''x'' \<or> x = CHR ''X'')
                   then (case r of
                           y # r' \<Rightarrow> if y = CHR ''_'' then r' else r
                         | [] \<Rightarrow> r)
                   else u
               | _ \<Rightarrow> u)
      in if hex_digits_ok False v
         then (let magnitude =
                     foldl (\<lambda>a c. 16 * a + hex_val c) 0 (filter (\<lambda>c. c \<noteq> CHR ''_'') v)
               in Inr (if negative then - magnitude else magnitude))
         else Inl ValueError)"

text \<open>\<open>f"{n:02x}"\<close>: lower-case hexadecimal, padded with zeros to a width of two, the
  sign of a negative number included.\<close>

definition hex_alphabet :: string where
  "hex_alphabet = ''0123456789abcdef''"

definition hex_char :: "nat \<Rightarrow> char" where
  "hex_char d = hex_alphabet ! d"

fun hex_nat :: "nat \<Rightarrow> string" where
  "hex_nat n = (if n < 16 then [hex_char n] else hex_nat (n div 16) @ [hex_char (n mod 16)])"

definition format_02x :: "int \<Rightarrow> string" where
  "format_02x n =
     (let digits = hex_nat (nat \<bar>n\<bar>);
          sign = (if n < 0 then ''-'' else [])
      in sign @ replicate (2 - length sign - length digits) CHR ''0'' @ digits)"

text \<open>
  \<open>random.choices(population, k=k)\<close>: the generator is a sequence of numbers, of which
  the call consumes \<open>k\<close> starting at \<open>offset\<close>.
\<close>

definition choices :: "string \<Rightarrow> nat \<Rightarrow> (nat \<Rightarrow> nat) \<Rightarrow> nat \<Rightarrow> string" where
  "choices population k draw offset =
     map (\<lambda>i. population ! (draw (offset + i) mod length population)) [0..<k]"

text \<open>
  \<open>MacchangerIntegration.generate_random_mac\<close>; \<open>vendor_prefix\<close> is \<open>None\<close> by
  default.
\<close>

definition generate_random_mac :: "(nat \<Rightarrow> nat) \<Rightarrow> string option \<Rightarrow> py_error + string" where
  "generate_random_mac draw vendor_prefix =
     (let from_vendor = (case vendor_prefix of
                           Some v \<Rightarrow> v \<noteq> [] \<and> length v = 8
                         | None \<Rightarrow> False);
          prefix = (case vendor_prefix of
                      Some v \<Rightarrow>
                        if v \<noteq> [] \<and> length v = 8 then filter (\<lambda>c. c \<noteq> CHR '':'') v
                        else choices hex_alphabet 6 draw 0
                    | None \<Rightarrow> choices hex_alphabet 6 draw 0)
      in case py_int16 (take 2 prefix) of
           Inl e \<Rightarrow> Inl e
         | Inr first_byte \<Rightarrow>
             (let first_byte' = (first_byte AND 0xFE) OR 0x02;
                  prefix' = format_02x first_byte' @ drop 2 prefix;
                  suffix = choices hex_alphabet 6 draw (if from_vendor then 0 else 6)
              in Inr (take 2 prefix' @ '':'' @ take 2 (drop 2 prefix') @ '':''
                      @ take 2 (drop 4 prefix') @ '':'' @ take 2 suffix @ '':''
                      @ take 2 (drop 2 suffix) @ '':'' @ take 2 (drop 4 suffix))))"

record macchanger_integration =
  macchanger_available :: bool
  current_interface :: "string option"
  original_macs :: "(string \<times> string) list"

text \<open>
  \<open>subprocess.run(..., capture_output=True, text=True, timeout=...)\<close> as
  \<open>get_current_mac\<close> uses it: the return code and the captured standard output.
\<close>

datatype text_outcome = TextCompleted int string | TextRaises py_error

record mac_env = os_env +
  run_text :: "string list \<Rightarrow> real \<Rightarrow> text_outcome"

text \<open>\<open>link/ether\s+([0-9a-f:]{17})\<close>, searched with \<open>re.IGNORECASE\<close>.\<close>

definition ether_pattern :: "tok list" where
  "ether_pattern = lits ''link/ether'' @ [Tok Space Plus, Cap HexLowerOrColon (Times 17)]"

text \<open>\<open>MacchangerIntegration.get_current_mac\<close>\<close>

definition get_current_mac :: "mac_env \<Rightarrow> string \<Rightarrow> py_error + string option" where
  "get_current_mac env interface =
     (let fallback =
            (case run_text env [''ip'', ''link'', ''show'', interface] 5 of
               TextCompleted returncode out \<Rightarrow>
                 (if returncode = 0
                  then (case re_search True ether_pattern out of
                          Some groups \<Rightarrow> Inr (Some (groups ! 0))
                        | None \<Rightarrow> Inr None)
                  else Inr None)
             | TextRaises e \<Rightarrow> if probe_catches e then Inr None else Inl e)
      in case run_text env [''cat'', ''/sys/class/net/'' @ interface @ ''/address''] 5 of
           TextCompleted returncode out \<Rightarrow>
             if returncode = 0 then Inr (Some (py_strip out)) else fallback
         | TextRaises e \<Rightarrow> if probe_catches e then fallback else Inl e)"

text \<open>\<open>MacchangerIntegration.backup_original_mac\<close>\<close>

definition backup_original_mac ::
  "macchanger_integration \<Rightarrow> mac_env \<Rightarrow> string \<Rightarrow> (py_error + bool) \<times> macchanger_integration" where
  "backup_original_mac self env interface =
     (case get_current_mac env interface of
        Inl e \<Rightarrow> (Inl e, self)
      | Inr None \<Rightarrow> (Inr False, self)
      | Inr (Some current_mac) \<Rightarrow>
          if current_mac \<noteq> []
          then (Inr True,
                self\<lparr>original_macs := AList.update interface current_mac (original_macs self)\<rparr>)
          else (Inr False, self))"

text \<open>
  \<open>MacchangerIntegration._validate_mac\<close>: \<open>pattern.match\<close> of
  \<open>^([0-9A-Fa-f]{2}[:-]){5}([0-9A-Fa-f]{2})$\<close>. The pattern consumes exactly 17
  characters, and \<open>$\<close> accepts the end of the string or one final newline.
\<close>

definition mac_tokens :: "tok list" where
  "mac_tokens =
     concat (replicate 5 [Tok HexDigit (Times 2), Tok ColonOrDash One])
     @ [Tok HexDigit (Times 2)]"

definition validate_mac :: "string \<Rightarrow> bool" where
  "validate_mac mac_address =
     (match_here False mac_tokens mac_address \<noteq> None
      \<and> (drop 17 mac_address = [] \<or> drop 17 mac_address = [CHR 0x0A]))"

text \<open>
  \<open>MacchangerIntegration.set_mac_address(self, interface, mac_address)\<close>. Only
  \<open>TimeoutExpired\<close> is handled.
\<close>

definition set_mac_address ::
  "macchanger_integration \<Rightarrow> mac_env \<Rightarrow> string \<Rightarrow> string \<Rightarrow> py_error + bool" where
  "set_mac_address self env interface mac_address =
     (if \<not> macchanger_available self then Inr False
      else if \<not> validate_mac mac_address then Inr False
      else
        (case run env [''ip'', ''link'', ''set'', interface, ''down''] 10 of
           RunRaises e \<Rightarrow> if e = TimeoutExpired then Inr False else Inl e
         | CompletedProcess down_code \<Rightarrow>
             (case run env [''macchanger'', ''-m'', mac_address, interface] 15 of
                RunRaises e \<Rightarrow> if e = TimeoutExpired then Inr False else Inl e
              | CompletedProcess returncode \<Rightarrow>
                  (case run env [''ip'', ''link'', ''set'', interface, ''up''] 10 of
                     RunRaises e \<Rightarrow> if e = TimeoutExpired then Inr False else Inl e
                   | CompletedProcess up_code \<Rightarrow> Inr (returncode = 0)))))"

text \<open>
  A call \<open>self.set_mac_address(a1, ..., an)\<close>: the method has the parameters
  \<open>interface\<close> and \<open>mac_address\<close> besides \<open>self\<close>, so the interpreter binds exactly two
  positional arguments and raises \<open>TypeError\<close> for any other number, before the body
  runs.
\<close>

definition call_set_mac_address ::
  "macchanger_integration \<Rightarrow> mac_env \<Rightarrow> string list \<Rightarrow> py_error + bool" where
  "call_set_mac_address self env args =
     (case args of
        [interface, mac_address] \<Rightarrow> set_mac_address self env interface mac_address
      | _ \<Rightarrow> Inl TypeError)"

text \<open>\<open>MacchangerIntegration.spoof_random_mac\<close>\<close>

definition spoof_random_mac ::
  "macchanger_integration \<Rightarrow> mac_env \<Rightarrow> (nat \<Rightarrow> nat) \<Rightarrow> string \<Rightarrow> py_error + string option" where
  "spoof_random_mac self env draw interface =
     (case generate_random_mac draw None of
        Inl e \<Rightarrow> Inl e
      | Inr random_mac \<Rightarrow>
          (case call_set_mac_address self env [interface, random_mac] of
             Inl e \<Rightarrow> Inl e
           | Inr changed \<Rightarrow> if changed then Inr (Some random_mac) else Inr None))"

text \<open>
  \<open>MacchangerIntegration.spoof_vendor_mac\<close>, whose call is
  \<open>self.set_mac_address(interface, interface, vendor_mac)\<close>.
\<close>

definition spoof_vendor_mac ::
  "macchanger_integration \<Rightarrow> mac_env \<Rightarrow> (nat \<Rightarrow> nat) \<Rightarrow> string \<Rightarrow> string
   \<Rightarrow> py_error + string option" where
  "spoof_vendor_mac self env draw interface vendor_code =
     (case generate_random_mac draw (Some vendor_code) of
        Inl e \<Rightarrow> Inl e
      | Inr vendor_mac \<Rightarrow>
          (case call_set_mac_address self env [interface, interface, vendor_mac] of
             Inl e \<Rightarrow> Inl e
           | Inr changed \<Rightarrow> if changed then Inr (Some vendor_mac) else Inr None))"

text \<open>The dictionary \<open>spoof_specific_vendor\<close> stores per spoof.\<close>

record spoof =
  spoof_interface :: string
  spoof_type :: string
  spoof_vendor_code :: string
  spoof_new_mac :: string
  spoof_start_time :: real
  spoof_status :: string

record mac_controller =
  macchanger :: macchanger_integration
  active_spoofs :: "(string \<times> spoof) list"

text \<open>
  \<open>AdvancedMacSpoofingController.spoof_specific_vendor\<close>; it has no \<open>try\<close>, so an
  exception of \<open>spoof_vendor_mac\<close> leaves through it.
\<close>

definition spoof_specific_vendor ::
  "mac_controller \<Rightarrow> mac_env \<Rightarrow> (nat \<Rightarrow> nat) \<Rightarrow> real \<Rightarrow> real \<Rightarrow> string \<Rightarrow> string
   \<Rightarrow> (py_error + string option) \<times> mac_controller" where
  "spoof_specific_vendor self env draw t_id t_start interface vendor_code =
     (let spoof_id = ''vendor_'' @ interface @ ''_'' @ str_int (py_int_of_float t_id)
      in case backup_original_mac (macchanger self) env interface of
           (Inl e, m) \<Rightarrow> (Inl e, self\<lparr>macchanger := m\<rparr>)
         | (Inr False, m) \<Rightarrow> (Inr None, self\<lparr>macchanger := m\<rparr>)
         | (Inr True, m) \<Rightarrow>
             (case spoof_vendor_mac m env draw interface vendor_code of
                Inl e \<Rightarrow> (Inl e, self\<lparr>macchanger := m\<rparr>)
              | Inr None \<Rightarrow> (Inr None, self\<lparr>macchanger := m\<rparr>)
              | Inr (Some new_mac) \<Rightarrow>
                  if new_mac \<noteq> []
                  then (Inr (Some spoof_id),
                        self\<lparr>macchanger := m,
                             active_spoofs :=
                               AList.update spoof_id
                                 \<lparr>spoof_interface = interface, spoof_type = ''vendor_spoof'',
                                  spoof_vendor_code = vendor_code, spoof_new_mac = new_mac,
                                  spoof_start_time = t_start, spoof_status = ''active''\<rparr>
                                 (active_spoofs self)\<rparr>)
                  else (Inr None, self\<lparr>macchanger := m\<rparr>)))"

text \<open>
  A machine with \<open>macchanger\<close> installed on which the interface address can be read,
  and a generator that always draws the first element.
\<close>

definition mac_env0 :: mac_env where
  "mac_env0 =
     \<lparr>popen = (\<lambda>argv. Inr 4242),
      run = (\<lambda>argv timeout. CompletedProcess 0),
      path_exists = (\<lambda>path. True),
      exc_text = (\<lambda>e. []),
      run_text = (\<lambda>argv timeout. TextCompleted 0 ''00:11:22:33:44:55'')\<rparr>"

definition draw0 :: "nat \<Rightarrow> nat" where
  "draw0 i = 0"

definition mac_controller0 :: mac_controller where
  "mac_controller0 =
     \<lparr>macchanger = \<lparr>macchanger_available = True, current_interface = None,
                    original_macs = []\<rparr>,
      active_spoofs = []\<rparr>"

section \<open>Size estimate\<close>

lemma estimate_loop_nonneg:
  "\<forall>l \<in> set ls. 0 \<le> l \<Longrightarrow>
   estimate_loop cs ls (PyInt t) = Inr (PyInt (t + (\<Sum>l\<leftarrow>ls. cs ^ nat l)))"
  by (induction ls arbitrary: t) (simp_all add: py_pow_def add.assoc)

text \<open>
  C9 (amended). Whenever no length in the range is negative (\<open>0 \<le> min_length\<close>, or the
  range is empty because \<open>max_length < min_length\<close>), \<open>estimate_wordlist_size\<close> returns
  exactly the sum of \<open>charset_size ^ l\<close> for \<open>l\<close> from \<open>min_length\<close> to \<open>max_length\<close> as an
  exact integer, the result is \<open>0\<close> when \<open>min_length > max_length\<close>, and \<open>self\<close> is
  returned unchanged.
\<close>

theorem estimate_wordlist_size_sum:
  "0 \<le> min_length \<or> max_length < min_length \<Longrightarrow>
   estimate_wordlist_size self min_length max_length charset_size =
     (Inr (PyInt (\<Sum>l = min_length..max_length. charset_size ^ nat l)), self)
   \<and> (max_length < min_length \<longrightarrow>
        estimate_wordlist_size self min_length max_length charset_size = (Inr (PyInt 0), self))"
proof -
  assume h: "0 \<le> min_length \<or> max_length < min_length"
  have nn: "\<forall>l \<in> set [min_length..max_length]. 0 \<le> l"
    using h by auto
  have "(\<Sum>l\<leftarrow>[min_length..max_length]. charset_size ^ nat l)
        = (\<Sum>l = min_length..max_length. charset_size ^ nat l)"
    by (simp add: interv_sum_list_conv_sum_set_int)
  then have main: "estimate_wordlist_size self min_length max_length charset_size =
     (Inr (PyInt (\<Sum>l = min_length..max_length. charset_size ^ nat l)), self)"
    using estimate_loop_nonneg [OF nn, of charset_size 0]
    by (simp add: estimate_wordlist_size_def)
  then show ?thesis by simp
qed

theorem estimate_wordlist_size_sum_witness:
  "((0::int) \<le> 4 \<or> (6::int) < 4) \<and>
   estimate_wordlist_size \<lparr>current_process = None, crunch_available = True\<rparr> 4 6 10
     = (Inr (PyInt 1110000), \<lparr>current_process = None, crunch_available = True\<rparr>)"
proof -
  have "{4..6::int} = {4, 5, 6}"
    by auto
  then have "(\<Sum>l = 4..6. (10::int) ^ nat l) = 1110000"
    by simp
  then show ?thesis
    using estimate_wordlist_size_sum
      [of 4 6 "\<lparr>current_process = None, crunch_available = True\<rparr>" 10]
    by simp
qed

text \<open>
  With a negative length in the range the source leaves integer arithmetic:
  \<open>2 ** -1\<close> is the float \<open>0.5\<close>, so the estimate for lengths \<open>-1..0\<close> over two
  characters is the float \<open>1.5\<close>, not an integer; and \<open>0 ** -1\<close> raises
  \<open>ZeroDivisionError\<close>, so for an empty character set the function does not return.
\<close>

theorem estimate_wordlist_size_negative_length_counterexample:
  "fst (estimate_wordlist_size \<lparr>current_process = None, crunch_available = True\<rparr> (- 1) 0 2)
     = Inr (PyFloat (3 / 2))
   \<and> fst (estimate_wordlist_size \<lparr>current_process = None, crunch_available = True\<rparr>
          (- 1) 0 0)
     = Inl ZeroDivisionError"
  by (simp add: estimate_wordlist_size_def py_pow_def upto.simps)

section \<open>Availability probes\<close>

lemma update_fresh: "k \<notin> fst ` set al \<Longrightarrow> AList.update k v al = al @ [(k, v)]"
  by (induction al) auto

lemma check_tools_loop_handled:
  "\<forall>tool \<in> set tools. \<forall>e. run env [tool, ''--help''] 5 = RunRaises e \<longrightarrow> probe_catches e \<Longrightarrow>
   distinct tools \<Longrightarrow> set tools \<inter> fst ` set acc = {} \<Longrightarrow>
   check_tools_loop env tools acc =
     Inr (acc @ map (\<lambda>tool. (tool, run env [tool, ''--help''] 5 = CompletedProcess 0)) tools)"
proof (induction tools arbitrary: acc)
  case Nil
  then show ?case by simp
next
  case (Cons tool tools)
  let ?rest = "map (\<lambda>tool. (tool, run env [tool, ''--help''] 5 = CompletedProcess 0)) tools"
  have fresh: "tool \<notin> fst ` set acc"
    using Cons.prems(3) by auto
  show ?case
  proof (cases "run env [tool, ''--help''] 5")
    case (CompletedProcess rc)
    have "check_tools_loop env tools (acc @ [(tool, rc = 0)]) =
            Inr ((acc @ [(tool, rc = 0)]) @ ?rest)"
      using Cons.prems by (intro Cons.IH) auto
    then show ?thesis
      using CompletedProcess fresh by (simp add: update_fresh)
  next
    case (RunRaises e)
    then have c: "probe_catches e"
      using Cons.prems(1) by simp
    have "check_tools_loop env tools (acc @ [(tool, False)]) =
            Inr ((acc @ [(tool, False)]) @ ?rest)"
      using Cons.prems by (intro Cons.IH) auto
    then show ?thesis
      using RunRaises fresh c by (simp add: update_fresh)
  qed
qed

lemma check_tools_loop_escapes:
  "tool \<in> set tools \<Longrightarrow> run env [tool, ''--help''] 5 = RunRaises e \<Longrightarrow> \<not> probe_catches e \<Longrightarrow>
   \<exists>e'. check_tools_loop env tools acc = Inl e'"
  by (induction tools arbitrary: acc) (auto split: run_outcome.splits)

lemma distinct_aircrack_tools: "distinct aircrack_tools"
  by (simp add: aircrack_tools_def)

text \<open>
  C7 (amended). Each probe returns a boolean whenever the invocation of the tool
  completes (crunch and the aircrack tools: \<open>True\<close> exactly for return code 0; cowpatty:
  \<open>True\<close> for every return code), exceeds the 5-second timeout (\<open>False\<close>) or finds no
  executable (\<open>False\<close>). These two exceptions are the only ones a probe handles: any
  other exception raised by the invocation escapes the probe.
\<close>

theorem probes_boolean_or_escape:
  "(run env [''crunch'', ''-h''] 5 = CompletedProcess rc \<longrightarrow> check_crunch env = Inr (rc = 0))
   \<and> (run env [''crunch'', ''-h''] 5 = RunRaises TimeoutExpired \<longrightarrow> check_crunch env = Inr False)
   \<and> (run env [''crunch'', ''-h''] 5 = RunRaises FileNotFoundError \<longrightarrow> check_crunch env = Inr False)
   \<and> (run env [''crunch'', ''-h''] 5 = RunRaises e \<and> e \<noteq> TimeoutExpired \<and> e \<noteq> FileNotFoundError
        \<longrightarrow> check_crunch env = Inl e)
   \<and> (run env [''cowpatty''] 5 = CompletedProcess rc \<longrightarrow> check_cowpatty env = Inr True)
   \<and> (run env [''cowpatty''] 5 = RunRaises TimeoutExpired \<longrightarrow> check_cowpatty env = Inr False)
   \<and> (run env [''cowpatty''] 5 = RunRaises FileNotFoundError \<longrightarrow> check_cowpatty env = Inr False)
   \<and> (run env [''cowpatty''] 5 = RunRaises e \<and> e \<noteq> TimeoutExpired \<and> e \<noteq> FileNotFoundError
        \<longrightarrow> check_cowpatty env = Inl e)
   \<and> ((\<forall>tool \<in> set aircrack_tools. \<forall>x. run env [tool, ''--help''] 5 = RunRaises x
          \<longrightarrow> x = TimeoutExpired \<or> x = FileNotFoundError)
        \<longrightarrow> check_tools_availability env =
              Inr (map (\<lambda>tool. (tool, run env [tool, ''--help''] 5 = CompletedProcess 0))
                     aircrack_tools))
   \<and> (tool \<in> set aircrack_tools \<and> run env [tool, ''--help''] 5 = RunRaises e
        \<and> e \<noteq> TimeoutExpired \<and> e \<noteq> FileNotFoundError
        \<longrightarrow> (\<exists>e'. check_tools_availability env = Inl e'))"
proof -
  have crunch: "run env [''crunch'', ''-h''] 5 = CompletedProcess rc \<longrightarrow> check_crunch env = Inr (rc = 0)"
    "run env [''crunch'', ''-h''] 5 = RunRaises TimeoutExpired \<longrightarrow> check_crunch env = Inr False"
    "run env [''crunch'', ''-h''] 5 = RunRaises FileNotFoundError \<longrightarrow> check_crunch env = Inr False"
    "run env [''crunch'', ''-h''] 5 = RunRaises e \<and> e \<noteq> TimeoutExpired \<and> e \<noteq> FileNotFoundError
        \<longrightarrow> check_crunch env = Inl e"
    by (simp_all add: check_crunch_def probe_catches_def)
  have cowpatty: "run env [''cowpatty''] 5 = CompletedProcess rc \<longrightarrow> check_cowpatty env = Inr True"
    "run env [''cowpatty''] 5 = RunRaises TimeoutExpired \<longrightarrow> check_cowpatty env = Inr False"
    "run env [''cowpatty''] 5 = RunRaises FileNotFoundError \<longrightarrow> check_cowpatty env = Inr False"
    "run env [''cowpatty''] 5 = RunRaises e \<and> e \<noteq> TimeoutExpired \<and> e \<noteq> FileNotFoundError
        \<longrightarrow> check_cowpatty env = Inl e"
    by (simp_all add: check_cowpatty_def probe_catches_def)
  have air1: "(\<forall>tool \<in> set aircrack_tools. \<forall>x. run env [tool, ''--help''] 5 = RunRaises x
          \<longrightarrow> x = TimeoutExpired \<or> x = FileNotFoundError)
        \<longrightarrow> check_tools_availability env =
              Inr (map (\<lambda>tool. (tool, run env [tool, ''--help''] 5 = CompletedProcess 0))
                     aircrack_tools)"
    using check_tools_loop_handled [of aircrack_tools env "[]"] distinct_aircrack_tools
    by (simp add: check_tools_availability_def probe_catches_def)
  have air2: "tool \<in> set aircrack_tools \<and> run env [tool, ''--help''] 5 = RunRaises e
        \<and> e \<noteq> TimeoutExpired \<and> e \<noteq> FileNotFoundError
        \<longrightarrow> (\<exists>e'. check_tools_availability env = Inl e')"
    using check_tools_loop_escapes [of tool aircrack_tools env e "[]"]
    by (simp add: check_tools_availability_def probe_catches_def)
  show ?thesis
    using crunch cowpatty air1 air2 by blast
qed

theorem probes_boolean_or_escape_witness:
  "check_crunch env_installed = Inr True
   \<and> check_crunch env_hangs = Inr False
   \<and> check_crunch env_nothing_installed = Inr False
   \<and> check_crunch env_not_executable = Inl PermissionError
   \<and> check_cowpatty env_installed = Inr True
   \<and> check_cowpatty env_hangs = Inr False
   \<and> check_cowpatty env_nothing_installed = Inr False
   \<and> check_cowpatty env_not_executable = Inl PermissionError
   \<and> check_tools_availability env_nothing_installed = Inr (map (\<lambda>tool. (tool, False)) aircrack_tools)
   \<and> (\<exists>e'. check_tools_availability env_not_executable = Inl e')"
proof -
  have airmon: "''airmon-ng'' \<in> set aircrack_tools"
    by (simp add: aircrack_tools_def)
  show ?thesis
    using probes_boolean_or_escape [of env_installed 0 PermissionError "''airmon-ng''"]
      probes_boolean_or_escape [of env_hangs 0 PermissionError "''airmon-ng''"]
      probes_boolean_or_escape [of env_nothing_installed 0 PermissionError "''airmon-ng''"]
      probes_boolean_or_escape [of env_not_executable 0 PermissionError "''airmon-ng''"]
      airmon
    by (simp add: env_installed_def env_hangs_def env_nothing_installed_def
        env_not_executable_def)
qed

text \<open>
  A file named \<open>crunch\<close> that is on the path but may not be executed makes
  \<open>subprocess.run\<close> raise \<open>PermissionError\<close>, which the probe does not handle: the
  exception escapes instead of the result \<open>False\<close>.
\<close>

theorem check_crunch_permission_counterexample:
  "check_crunch env_not_executable = Inl PermissionError"
  by (simp add: check_crunch_def env_not_executable_def probe_catches_def)

section \<open>Stopping\<close>





section \<open>Progress parsers\<close>

lemma first_some_SomeD: "first_some xs = Some x \<Longrightarrow> Some x \<in> set xs"
  by (induction xs rule: first_some.induct) auto

text \<open>A match binds exactly the groups of its pattern, so the group indices the
  parsers read are in range.\<close>

lemma match_here_groups:
  "match_here ic p s = Some groups \<Longrightarrow> length groups = length (filter is_cap p)"
proof (induction p arbitrary: s groups)
  case Nil
  then show ?case by simp
next
  case (Cons t ts)
  have fs: "first_some
      (map (\<lambda>k. map_option (capture t (take k s)) (match_here ic ts (drop k s)))
         (counts ic t s)) = Some groups"
    using Cons.prems by simp
  from first_some_SomeD [OF fs] obtain k where
    k: "Some groups = map_option (capture t (take k s)) (match_here ic ts (drop k s))"
    by auto
  then obtain gs where "match_here ic ts (drop k s) = Some gs"
    and g: "groups = capture t (take k s) gs"
    by (cases "match_here ic ts (drop k s)") auto
  then have "length gs = length (filter is_cap ts)"
    using Cons.IH by blast
  with g show ?case by (cases t) auto
qed

lemma re_search_groups:
  "re_search ic p s = Some groups \<Longrightarrow> length groups = length (filter is_cap p)"
  unfolding re_search_def
  by (induction s) (auto split: option.splits dest: match_here_groups)















section \<open>Starting a job\<close>

declare str_nat.simps [simp del]

lemma of_char_digit_char: "d < 10 \<Longrightarrow> (of_char (digit_char d) :: nat) = 48 + d"
  by (simp add: digit_char_def)

lemma digit_val_digit_char: "d < 10 \<Longrightarrow> digit_val (digit_char d) = int d"
  by (simp add: digit_val_def of_char_digit_char)

lemma is_digit_digit_char: "d < 10 \<Longrightarrow> is_digit (digit_char d)"
  by (simp add: is_digit_def of_char_digit_char)

lemma str_nat_digits: "\<forall>c \<in> set (str_nat n). is_digit c"
proof (induction n rule: str_nat.induct)
  case (1 n)
  show ?case
  proof (cases "n < 10")
    case True
    then show ?thesis by (subst str_nat.simps) (simp add: is_digit_digit_char)
  next
    case False
    then show ?thesis using 1 by (subst str_nat.simps) (simp add: is_digit_digit_char)
  qed
qed

lemma int_of_digits_snoc: "int_of_digits (s @ [c]) = 10 * int_of_digits s + digit_val c"
  by (simp add: int_of_digits_def)

lemma int_of_digits_str_nat: "int_of_digits (str_nat n) = int n"
proof (induction n rule: str_nat.induct)
  case (1 n)
  show ?case
  proof (cases "n < 10")
    case True
    then show ?thesis
      by (subst str_nat.simps) (simp add: int_of_digits_def digit_val_digit_char)
  next
    case False
    then have "int_of_digits (str_nat (n div 10)) = int (n div 10)"
      using 1 by simp
    then show ?thesis
      using False
      by (subst str_nat.simps) (simp add: int_of_digits_snoc digit_val_digit_char zdiv_int zmod_int)
  qed
qed

lemma str_nat_inj: "str_nat m = str_nat n \<Longrightarrow> m = n"
  by (metis int_of_digits_str_nat of_nat_eq_iff)

lemma str_nat_not_Nil: "str_nat n \<noteq> []"
  by (subst str_nat.simps) simp

lemma minus_not_digit: "\<not> is_digit CHR ''-''" "\<not> is_digit CHR ''_''"
  by (simp_all add: is_digit_def)

lemma str_int_inj: "str_int i = str_int j \<Longrightarrow> i = j"
proof -
  assume eq: "str_int i = str_int j"
  have hd_nat: "\<And>n. hd (str_nat n) \<noteq> CHR ''-''"
    using str_nat_digits str_nat_not_Nil minus_not_digit(1) by (metis hd_in_set)
  show ?thesis
  proof (cases "i < 0")
    case True
    show ?thesis
    proof (cases "j < 0")
      case True
      with \<open>i < 0\<close> eq have "str_nat (nat (- i)) = str_nat (nat (- j))"
        by (simp add: str_int_def)
      then have "nat (- i) = nat (- j)" by (rule str_nat_inj)
      with True \<open>i < 0\<close> show ?thesis by simp
    next
      case False
      with \<open>i < 0\<close> eq have "CHR ''-'' # str_nat (nat (- i)) = str_nat (nat j)"
        by (simp add: str_int_def)
      then have "hd (str_nat (nat j)) = CHR ''-''" by (metis list.sel(1))
      then show ?thesis using hd_nat by blast
    qed
  next
    case False
    show ?thesis
    proof (cases "j < 0")
      case True
      with False eq have "str_nat (nat i) = CHR ''-'' # str_nat (nat (- j))"
        by (simp add: str_int_def)
      then have "hd (str_nat (nat i)) = CHR ''-''" by (metis list.sel(1))
      then show ?thesis using hd_nat by blast
    next
      case False
      with \<open>\<not> i < 0\<close> eq have "str_nat (nat i) = str_nat (nat j)"
        by (simp add: str_int_def)
      then have "nat i = nat j" by (rule str_nat_inj)
      with False \<open>\<not> i < 0\<close> show ?thesis by simp
    qed
  qed
qed

lemma str_int_no_underscore: "CHR ''_'' \<notin> set (str_int i)"
  using str_nat_digits minus_not_digit(2) by (auto simp: str_int_def)

lemma split_at_last:
  "xs @ c # ds = ys @ c # es \<Longrightarrow> c \<notin> set ds \<Longrightarrow> c \<notin> set es \<Longrightarrow> xs = ys \<and> ds = es"
proof -
  assume eq: "xs @ c # ds = ys @ c # es" and d: "c \<notin> set ds" and e: "c \<notin> set es"
  have "rev ds @ c # rev xs = rev es @ c # rev ys"
    using arg_cong [OF eq, of rev] by simp
  then have "takeWhile (\<lambda>x. x \<noteq> c) (rev ds @ c # rev xs) = takeWhile (\<lambda>x. x \<noteq> c) (rev es @ c # rev ys)"
    by simp
  moreover have "takeWhile (\<lambda>x. x \<noteq> c) (rev ds @ c # rev xs) = rev ds"
    using d by (auto simp: takeWhile_tail)
  moreover have "takeWhile (\<lambda>x. x \<noteq> c) (rev es @ c # rev ys) = rev es"
    using e by (auto simp: takeWhile_tail)
  ultimately have "ds = es" by simp
  with eq show ?thesis by simp
qed

lemma start_crunch_Inr:
  "start_smart_wordlist_generation self env t_id t_start target_info output_path = (Inr gid, c', ls) \<Longrightarrow>
   gid = ''crunch_'' @ str_int (py_int_of_float t_id)
   \<and> (\<exists>p. active_generations c' =
        AList.update gid
          \<lparr>process = p, start_time = t_start, status = Some ''running'',
           last_update = None, progress = None, result = None,
           output_file = output_path, strategy = analyze_target target_info\<rparr>
          (active_generations self))"
  by (auto simp: start_smart_wordlist_generation_def Let_def split: prod.splits sum.splits)

lemma start_cowpatty_Inr:
  "start_optimized_attack self env t_id t_start ssid capture_file wordlist use_pre = (Inr aid, c', ls) \<Longrightarrow>
   aid = ''cowpatty_'' @ ssid @ ''_'' @ str_int (py_int_of_float t_id)"
  by (auto simp: start_optimized_attack_def Let_def split: prod.splits sum.splits)

lemma crunch_id_eq_iff:
  "(''crunch_'' @ str_int i = ''crunch_'' @ str_int j) = (i = j)"
  using str_int_inj by auto

lemma cowpatty_id_eq_iff:
  "(''cowpatty_'' @ s1 @ ''_'' @ str_int i = ''cowpatty_'' @ s2 @ ''_'' @ str_int j)
     = (s1 = s2 \<and> i = j)"
proof
  assume "''cowpatty_'' @ s1 @ ''_'' @ str_int i = ''cowpatty_'' @ s2 @ ''_'' @ str_int j"
  then have "s1 @ CHR ''_'' # str_int i = s2 @ CHR ''_'' # str_int j"
    by simp
  then have "s1 = s2 \<and> str_int i = str_int j"
    using split_at_last str_int_no_underscore by metis
  then show "s1 = s2 \<and> i = j"
    using str_int_inj by blast
qed simp


lemma start_crunch_unavailable:
  "\<not> crunch_available (crunch self) \<Longrightarrow>
   start_smart_wordlist_generation self env t_id t_start target_info output_path =
     (Inl (RuntimeError ''Failed to start wordlist generation: Crunch not available''), self, [])"
  by (simp add: start_smart_wordlist_generation_def generate_wordlist_def
      generate_pattern_based_wordlist_def py_str_exc_def Let_def split: strategy.splits)

lemma precompute_launches:
  "precompute_pmk c env ssid wordlist out = (r, ls) \<Longrightarrow>
   \<forall>l \<in> set ls. \<exists>args. l = Exec (''genpmk'' # args)"
  by (auto simp: precompute_pmk_def Let_def split: if_splits run_outcome.splits option.splits)

lemma attack_unavailable:
  "\<not> cowpatty_available c \<Longrightarrow>
   attack_with_wordlist c env w cf s = (Inl (RuntimeError ''Cowpatty not available''), c, [])"
  "\<not> cowpatty_available c \<Longrightarrow>
   attack_with_pmk_file c env w cf s = (Inl (RuntimeError ''Cowpatty not available''), c, [])"
  by (simp_all add: attack_with_wordlist_def attack_with_pmk_file_def)

lemma start_cowpatty_unavailable:
  assumes "\<not> cowpatty_available (cowpatty self)"
  shows "\<exists>msg launches.
     start_optimized_attack self env t_id t_start ssid capture_file wordlist use_pre
       = (Inl (RuntimeError msg), self, launches)
     \<and> (\<forall>l \<in> set launches. \<exists>args. l = Exec (''genpmk'' # args))
     \<and> (\<not> (use_pre \<and> genpmk_available (cowpatty self)) \<longrightarrow>
          launches = [] \<and> msg = ''Failed to start cowpatty attack: Cowpatty not available'')"
proof (cases "use_pre \<and> genpmk_available (cowpatty self)")
  case False
  then show ?thesis
    using assms
    by (auto simp: start_optimized_attack_def attack_unavailable py_str_exc_def)
next
  case True
  obtain r ls where p: "precompute_pmk (cowpatty self) env ssid wordlist None = (r, ls)"
    by (cases "precompute_pmk (cowpatty self) env ssid wordlist None") auto
  have g: "\<forall>l \<in> set ls. \<exists>args. l = Exec (''genpmk'' # args)"
    using precompute_launches [OF p] .
  show ?thesis
    using True assms p g
    by (cases r) (auto simp: start_optimized_attack_def attack_unavailable py_str_exc_def
        split: option.splits)
qed

text \<open>
  C5 (amended). A crunch start request issued while \<open>crunch_available\<close> is false fails
  with the \<open>RuntimeError\<close> that carries \<open>Crunch not available\<close>, before any child process
  is spawned, and leaves the controller, its registry included, exactly as it was. A
  cowpatty start request issued while \<open>cowpatty_available\<close> is false likewise fails with
  a \<open>RuntimeError\<close> and leaves the controller exactly as it was, and no cowpatty process
  is spawned; no process at all is spawned unless precomputation is requested and
  \<open>genpmk\<close> is available, in which case \<open>genpmk\<close> is run before the failure.
\<close>

theorem start_unavailable_atomic:
  "(\<not> crunch_available (crunch self) \<longrightarrow>
      start_smart_wordlist_generation self env t_id t_start target_info output_path =
        (Inl (RuntimeError ''Failed to start wordlist generation: Crunch not available''),
         self, []))
   \<and> (\<not> cowpatty_available (cowpatty cself) \<longrightarrow>
        (\<exists>msg launches.
           start_optimized_attack cself env t_id t_start ssid capture_file wordlist use_pre
             = (Inl (RuntimeError msg), cself, launches)
           \<and> (\<forall>l \<in> set launches. \<exists>args. l = Exec (''genpmk'' # args))
           \<and> (\<not> (use_pre \<and> genpmk_available (cowpatty cself)) \<longrightarrow>
                launches = []
                \<and> msg = ''Failed to start cowpatty attack: Cowpatty not available'')))"
  using start_crunch_unavailable [of self env t_id t_start target_info output_path]
    start_cowpatty_unavailable [of cself env t_id t_start ssid capture_file wordlist use_pre]
  by blast

theorem start_unavailable_atomic_witness:
  "start_smart_wordlist_generation crunch_controller_unavailable env_installed 1000 1000
       [(''ssid'', ''home'')] ''out.txt''
     = (Inl (RuntimeError ''Failed to start wordlist generation: Crunch not available''),
        crunch_controller_unavailable, [])
   \<and> start_optimized_attack cowpatty_controller_genpmk_only env_installed 1000 1000
       ''home'' ''hs.cap'' ''words.txt'' False
     = (Inl (RuntimeError ''Failed to start cowpatty attack: Cowpatty not available''),
        cowpatty_controller_genpmk_only, [])"
  using start_unavailable_atomic [where self = crunch_controller_unavailable
      and cself = cowpatty_controller_genpmk_only and env = env_installed
      and t_id = 1000 and t_start = 1000 and target_info = "[(''ssid'', ''home'')]"
      and output_path = "''out.txt''" and ssid = "''home''" and capture_file = "''hs.cap''"
      and wordlist = "''words.txt''" and use_pre = False]
  by (auto simp: crunch_controller_unavailable_def cowpatty_controller_genpmk_only_def)

text \<open>
  \<open>cowpatty\<close> is unavailable, \<open>genpmk\<close> is available and precomputation is requested
  (the default): \<open>genpmk\<close> is run as a child process before the start fails.
\<close>

theorem start_optimized_attack_runs_genpmk_counterexample:
  "start_optimized_attack cowpatty_controller_genpmk_only env_installed 1000 1000
       ''home'' ''hs.cap'' ''words.txt'' True
   = (Inl (RuntimeError ''Failed to start cowpatty attack: Cowpatty not available''),
      cowpatty_controller_genpmk_only,
      [Exec [''genpmk'', ''-f'', ''words.txt'', ''-d'', ''/tmp/fern-log/cowpatty_home_pmk.txt'',
             ''-s'', ''home'']])"
  by (simp add: start_optimized_attack_def cowpatty_controller_genpmk_only_def env_installed_def
      precompute_pmk_def attack_with_pmk_file_def attack_with_wordlist_def py_str_exc_def
      Let_def)


section \<open>Job ids\<close>

lemma update_existing_keys:
  "map_of al k \<noteq> None \<Longrightarrow> map fst (AList.update k v al) = map fst al"
  by (induction al) auto

lemma eval_home: "analyze_target [(''ssid'', ''home'')]
    = CharsetStrategy (lowercase_letters @ decimal_digits) 8 16 ''Standard alphanumeric''"
  by code_simp

lemma eval_office: "analyze_target [(''ssid'', ''office'')]
    = CharsetStrategy (lowercase_letters @ decimal_digits) 8 16 ''Standard alphanumeric''"
  by code_simp

lemma eval_str_int: "str_int 1000 = ''1000''" "str_int 1001 = ''1001''"
  "str_int 8 = ''8''" "str_int 16 = ''16''"
  by code_simp+

lemma eval_seconds: "py_int_of_float (5001 / 5) = 1000" "py_int_of_float (10007 / 10) = 1000"
  "py_int_of_float (5006 / 5) = 1001" "py_int_of_float 1000 = 1000"
  by (simp_all add: py_int_of_float_def)

text \<open>
  C1 (amended). Two successful start calls return distinct job ids exactly when their
  clock readings differ in the whole second (crunch), or when the ssid or the whole
  second differ (cowpatty). Two crunch starts within the same clock second return the
  same id, and the second job then replaces the first under that id: the registry
  gains no entry.
\<close>

theorem start_ids_equal_iff_same_second:
  "(start_smart_wordlist_generation c1 env1 t1 s1 info1 out1 = (Inr id1, c1', l1)
    \<and> start_smart_wordlist_generation c2 env2 t2 s2 info2 out2 = (Inr id2, c2', l2)
    \<longrightarrow> (id1 = id2 \<longleftrightarrow> py_int_of_float t1 = py_int_of_float t2))
   \<and> (start_optimized_attack k1 env1 t1 s1 ssid1 cf1 w1 u1 = (Inr a1, k1', m1)
       \<and> start_optimized_attack k2 env2 t2 s2 ssid2 cf2 w2 u2 = (Inr a2, k2', m2)
       \<longrightarrow> (a1 = a2 \<longleftrightarrow> ssid1 = ssid2 \<and> py_int_of_float t1 = py_int_of_float t2))
   \<and> (start_smart_wordlist_generation c1 env1 t1 s1 info1 out1 = (Inr id1, c1', l1)
       \<and> start_smart_wordlist_generation c1' env2 t2 s2 info2 out2 = (Inr id2, c2', l2)
       \<and> py_int_of_float t1 = py_int_of_float t2
       \<longrightarrow> id2 = id1
           \<and> map fst (active_generations c2') = map fst (active_generations c1')
           \<and> (\<exists>j. map_of (active_generations c2') id1 = Some j
                  \<and> start_time j = s2 \<and> output_file j = out2))"
proof -
  have crunch_ids: "start_smart_wordlist_generation c1 env1 t1 s1 info1 out1 = (Inr id1, c1', l1)
    \<and> start_smart_wordlist_generation c2 env2 t2 s2 info2 out2 = (Inr id2, c2', l2)
    \<longrightarrow> (id1 = id2 \<longleftrightarrow> py_int_of_float t1 = py_int_of_float t2)"
    using start_crunch_Inr [of c1 env1 t1 s1 info1 out1 id1 c1' l1]
      start_crunch_Inr [of c2 env2 t2 s2 info2 out2 id2 c2' l2]
      crunch_id_eq_iff [of "py_int_of_float t1" "py_int_of_float t2"]
    by auto
  have cowpatty_ids: "start_optimized_attack k1 env1 t1 s1 ssid1 cf1 w1 u1 = (Inr a1, k1', m1)
       \<and> start_optimized_attack k2 env2 t2 s2 ssid2 cf2 w2 u2 = (Inr a2, k2', m2)
       \<longrightarrow> (a1 = a2 \<longleftrightarrow> ssid1 = ssid2 \<and> py_int_of_float t1 = py_int_of_float t2)"
    using start_cowpatty_Inr [of k1 env1 t1 s1 ssid1 cf1 w1 u1 a1 k1' m1]
      start_cowpatty_Inr [of k2 env2 t2 s2 ssid2 cf2 w2 u2 a2 k2' m2]
      cowpatty_id_eq_iff [of ssid1 "py_int_of_float t1" ssid2 "py_int_of_float t2"]
    by auto
  have replaced: "start_smart_wordlist_generation c1 env1 t1 s1 info1 out1 = (Inr id1, c1', l1)
       \<and> start_smart_wordlist_generation c1' env2 t2 s2 info2 out2 = (Inr id2, c2', l2)
       \<and> py_int_of_float t1 = py_int_of_float t2
       \<longrightarrow> id2 = id1
           \<and> map fst (active_generations c2') = map fst (active_generations c1')
           \<and> (\<exists>j. map_of (active_generations c2') id1 = Some j
                  \<and> start_time j = s2 \<and> output_file j = out2)"
  proof
    assume h: "start_smart_wordlist_generation c1 env1 t1 s1 info1 out1 = (Inr id1, c1', l1)
       \<and> start_smart_wordlist_generation c1' env2 t2 s2 info2 out2 = (Inr id2, c2', l2)
       \<and> py_int_of_float t1 = py_int_of_float t2"
    from h start_crunch_Inr [of c1 env1 t1 s1 info1 out1 id1 c1' l1]
    obtain p1 where id1: "id1 = ''crunch_'' @ str_int (py_int_of_float t1)"
      and r1: "active_generations c1' =
          AList.update id1
            \<lparr>process = p1, start_time = s1, status = Some ''running'',
             last_update = None, progress = None, result = None,
             output_file = out1, strategy = analyze_target info1\<rparr>
            (active_generations c1)"
      by blast
    from h start_crunch_Inr [of c1' env2 t2 s2 info2 out2 id2 c2' l2]
    obtain p2 where id2: "id2 = ''crunch_'' @ str_int (py_int_of_float t2)"
      and r2: "active_generations c2' =
          AList.update id2
            \<lparr>process = p2, start_time = s2, status = Some ''running'',
             last_update = None, progress = None, result = None,
             output_file = out2, strategy = analyze_target info2\<rparr>
            (active_generations c1')"
      by blast
    have same: "id2 = id1"
      using id1 id2 h by simp
    have present: "map_of (active_generations c1') id1 \<noteq> None"
      using r1 by (simp add: update_conv')
    have keys: "map fst (active_generations c2') = map fst (active_generations c1')"
      using r2 same present by (simp add: update_existing_keys)
    have entry: "\<exists>j. map_of (active_generations c2') id1 = Some j
                    \<and> start_time j = s2 \<and> output_file j = out2"
      using r2 same by (simp add: update_conv')
    show "id2 = id1
             \<and> map fst (active_generations c2') = map fst (active_generations c1')
             \<and> (\<exists>j. map_of (active_generations c2') id1 = Some j
                    \<and> start_time j = s2 \<and> output_file j = out2)"
      using same keys entry by blast
  qed
  show ?thesis
    using crunch_ids cowpatty_ids replaced by blast
qed

lemma first_start:
  "start_smart_wordlist_generation crunch_controller0 env_installed (5001 / 5) (10003 / 10)
       [(''ssid'', ''home'')] ''a.txt''
     = (Inr ''crunch_1000'', crunch_after_first_start,
        [Exec [''crunch'', ''8'', ''16'', lowercase_letters @ decimal_digits, ''-o'', ''a.txt'']])"
  by (simp add: Let_def start_smart_wordlist_generation_def eval_home eval_str_int eval_seconds
      generate_wordlist_def crunch_cmd_def no_options_def crunch_controller0_def
      env_installed_def crunch_after_first_start_def)

lemma second_start:
  "start_smart_wordlist_generation crunch_after_first_start env_installed (10007 / 10)
       (5004 / 5) [(''ssid'', ''office'')] ''b.txt''
     = (Inr ''crunch_1000'', crunch_after_second_start,
        [Exec [''crunch'', ''8'', ''16'', lowercase_letters @ decimal_digits, ''-o'', ''b.txt'']])"
  by (simp add: Let_def start_smart_wordlist_generation_def eval_office eval_str_int
      eval_seconds generate_wordlist_def crunch_cmd_def no_options_def
      crunch_after_second_start_def env_installed_def crunch_after_first_start_def)

lemma cowpatty_start_home:
  "fst (start_optimized_attack cowpatty_controller0 env_installed 1000 1000
          ''home'' ''hs.cap'' ''words.txt'' False) = Inr ''cowpatty_home_1000''"
  by (simp add: Let_def start_optimized_attack_def eval_str_int eval_seconds
      cowpatty_controller0_def env_installed_def attack_with_wordlist_def)

lemma cowpatty_start_office:
  "fst (start_optimized_attack cowpatty_controller0 env_installed 1000 1000
          ''office'' ''hs.cap'' ''words.txt'' False) = Inr ''cowpatty_office_1000''"
  by (simp add: Let_def start_optimized_attack_def eval_str_int eval_seconds
      cowpatty_controller0_def env_installed_def attack_with_wordlist_def)

theorem start_ids_equal_iff_same_second_witness:
  "start_smart_wordlist_generation crunch_controller0 env_installed (5001 / 5) (10003 / 10)
       [(''ssid'', ''home'')] ''a.txt''
     = (Inr ''crunch_1000'', crunch_after_first_start,
        [Exec [''crunch'', ''8'', ''16'', lowercase_letters @ decimal_digits, ''-o'', ''a.txt'']])
   \<and> start_smart_wordlist_generation crunch_after_first_start env_installed (10007 / 10)
       (5004 / 5) [(''ssid'', ''office'')] ''b.txt''
     = (Inr ''crunch_1000'', crunch_after_second_start,
        [Exec [''crunch'', ''8'', ''16'', lowercase_letters @ decimal_digits, ''-o'', ''b.txt'']])
   \<and> py_int_of_float (5001 / 5) = py_int_of_float (10007 / 10)
   \<and> map fst (active_generations crunch_after_second_start)
       = map fst (active_generations crunch_after_first_start)
   \<and> (\<exists>j. map_of (active_generations crunch_after_second_start) ''crunch_1000'' = Some j
          \<and> start_time j = 5004 / 5 \<and> output_file j = ''b.txt'')
   \<and> fst (start_optimized_attack cowpatty_controller0 env_installed 1000 1000
          ''home'' ''hs.cap'' ''words.txt'' False) = Inr ''cowpatty_home_1000''
   \<and> fst (start_optimized_attack cowpatty_controller0 env_installed 1000 1000
          ''office'' ''hs.cap'' ''words.txt'' False) = Inr ''cowpatty_office_1000''
   \<and> (''cowpatty_home_1000'' = ''cowpatty_office_1000''
        \<longleftrightarrow> ''home'' = ''office'' \<and> py_int_of_float 1000 = py_int_of_float 1000)"
proof -
  let ?home = "start_optimized_attack cowpatty_controller0 env_installed 1000 1000
          ''home'' ''hs.cap'' ''words.txt'' False"
  let ?office = "start_optimized_attack cowpatty_controller0 env_installed 1000 1000
          ''office'' ''hs.cap'' ''words.txt'' False"
  have h: "?home = (Inr ''cowpatty_home_1000'', fst (snd ?home), snd (snd ?home))"
    using cowpatty_start_home by (metis prod.collapse)
  have o: "?office = (Inr ''cowpatty_office_1000'', fst (snd ?office), snd (snd ?office))"
    using cowpatty_start_office by (metis prod.collapse)
  have s: "py_int_of_float (5001 / 5) = py_int_of_float (10007 / 10)"
    by (simp add: eval_seconds)
  show ?thesis
    using start_ids_equal_iff_same_second
      [where ?c1.0 = crunch_controller0 and ?env1.0 = env_installed and ?t1.0 = "5001 / 5"
        and ?s1.0 = "10003 / 10" and ?info1.0 = "[(''ssid'', ''home'')]"
        and ?out1.0 = "''a.txt''" and ?id1.0 = "''crunch_1000''"
        and ?c1' = crunch_after_first_start
        and ?l1.0 = "[Exec [''crunch'', ''8'', ''16'', lowercase_letters @ decimal_digits,
                            ''-o'', ''a.txt'']]"
        and ?env2.0 = env_installed and ?t2.0 = "10007 / 10" and ?s2.0 = "5004 / 5"
        and ?info2.0 = "[(''ssid'', ''office'')]" and ?out2.0 = "''b.txt''"
        and ?id2.0 = "''crunch_1000''" and ?c2' = crunch_after_second_start
        and ?l2.0 = "[Exec [''crunch'', ''8'', ''16'', lowercase_letters @ decimal_digits,
                            ''-o'', ''b.txt'']]"]
      start_ids_equal_iff_same_second
      [where ?k1.0 = cowpatty_controller0 and ?env1.0 = env_installed and ?t1.0 = 1000
        and ?s1.0 = 1000 and ?ssid1.0 = "''home''" and ?cf1.0 = "''hs.cap''"
        and ?w1.0 = "''words.txt''" and ?u1.0 = False and ?a1.0 = "''cowpatty_home_1000''"
        and ?k1' = "fst (snd ?home)" and ?m1.0 = "snd (snd ?home)"
        and ?k2.0 = cowpatty_controller0 and ?env2.0 = env_installed and ?t2.0 = 1000
        and ?s2.0 = 1000 and ?ssid2.0 = "''office''" and ?cf2.0 = "''hs.cap''"
        and ?w2.0 = "''words.txt''" and ?u2.0 = False and ?a2.0 = "''cowpatty_office_1000''"
        and ?k2' = "fst (snd ?office)" and ?m2.0 = "snd (snd ?office)"]
      first_start second_start h o s cowpatty_start_home cowpatty_start_office
    by simp
qed

text \<open>
  Two crunch starts in the same clock second, at readings 1000.2 and 1000.7: both
  return the id \<open>crunch_1000\<close>, and afterwards the registry holds one job, not two.
\<close>

theorem start_same_second_same_id_counterexample:
  "fst (start_smart_wordlist_generation crunch_controller0 env_installed (5001 / 5)
          (10003 / 10) [(''ssid'', ''home'')] ''a.txt'') = Inr ''crunch_1000''
   \<and> fst (snd (start_smart_wordlist_generation crunch_controller0 env_installed (5001 / 5)
          (10003 / 10) [(''ssid'', ''home'')] ''a.txt'')) = crunch_after_first_start
   \<and> fst (start_smart_wordlist_generation crunch_after_first_start env_installed (10007 / 10)
          (5004 / 5) [(''ssid'', ''office'')] ''b.txt'') = Inr ''crunch_1000''
   \<and> map fst (active_generations
        (fst (snd (start_smart_wordlist_generation crunch_after_first_start env_installed
           (10007 / 10) (5004 / 5) [(''ssid'', ''office'')] ''b.txt''))))
       = [''crunch_1000'']"
  by (simp add: first_start second_start crunch_after_second_start_def)

section \<open>Status of a job\<close>

lemma job_status_handle_progress:
  "job_status (handle_progress c now gid info) gid =
     (if map_of (active_generations c) gid = None then None
      else if map_of info ''status'' = Some (VStr ''completed'') then Some ''completed''
      else job_status c gid)"
  by (auto simp: job_status_def handle_progress_def Let_def update_conv' split: option.splits)

lemma job_status_stop:
  "job_status (fst (snd (controller_stop_generation c penv gid))) gid =
     (if map_of (active_generations c) gid = None then None
      else if fst (stop_generation (crunch c) penv) = Inr True then Some ''stopped''
      else job_status c gid)"
  by (auto simp: job_status_def controller_stop_generation_def update_conv'
      split: option.splits prod.splits sum.splits bool.splits)

lemma job_status_absent:
  "map_of (active_generations c) gid = None \<Longrightarrow> job_status c gid = None"
  by (simp add: job_status_def)

lemma job_status_apply_op:
  "job_status (apply_op c gid op) gid \<in> {job_status c gid, Some ''completed'', Some ''stopped''}"
  by (cases op) (auto simp: job_status_handle_progress job_status_stop job_status_absent)

lemma terminal_run_ops:
  "job_status c gid \<in> {Some ''completed'', Some ''stopped''} \<Longrightarrow>
   job_status (run_ops c gid ops) gid \<in> {Some ''completed'', Some ''stopped''}"
proof (induction ops arbitrary: c)
  case Nil
  then show ?case by simp
next
  case (Cons op ops)
  have "job_status (apply_op c gid op) gid \<in> {Some ''completed'', Some ''stopped''}"
    using job_status_apply_op [of c gid op] Cons.prems by auto
  then show ?case
    using Cons.IH by simp
qed

text \<open>
  C2 (amended). For every crunch job and every sequence of progress callbacks, stop
  requests and completion events: once the status is \<open>completed\<close> or \<open>stopped\<close> it stays
  within these two values (it never returns to \<open>running\<close>), and a callback other than
  the completion event never changes the status. The completion event, however, sets
  the status to \<open>completed\<close> whatever it was, \<open>stopped\<close> included, and a successful stop
  sets it to \<open>stopped\<close> whatever it was, \<open>completed\<close> included. No operation assigns any
  other status.
\<close>

theorem terminal_status_stays_terminal:
  "(job_status c gid \<in> {Some ''completed'', Some ''stopped''}
      \<longrightarrow> job_status (run_ops c gid ops) gid \<in> {Some ''completed'', Some ''stopped''})
   \<and> (map_of info ''status'' \<noteq> Some (VStr ''completed'')
        \<longrightarrow> job_status (apply_op c gid (Callback now info)) gid = job_status c gid)
   \<and> (map_of (active_generations c) gid \<noteq> None
        \<longrightarrow> job_status (apply_op c gid (Callback now completion_event)) gid = Some ''completed'')
   \<and> (map_of (active_generations c) gid \<noteq> None
        \<and> fst (stop_generation (crunch c) penv) = Inr True
        \<longrightarrow> job_status (apply_op c gid (StopRequest penv)) gid = Some ''stopped'')
   \<and> (fst (stop_generation (crunch c) penv) \<noteq> Inr True
        \<longrightarrow> job_status (apply_op c gid (StopRequest penv)) gid = job_status c gid)
   \<and> job_status (apply_op c gid op) gid
        \<in> {job_status c gid, Some ''completed'', Some ''stopped''}"
proof -
  have "map_of info ''status'' \<noteq> Some (VStr ''completed'')
        \<longrightarrow> job_status (apply_op c gid (Callback now info)) gid = job_status c gid"
    by (simp add: job_status_handle_progress job_status_absent)
  moreover have "map_of (active_generations c) gid \<noteq> None
        \<longrightarrow> job_status (apply_op c gid (Callback now completion_event)) gid = Some ''completed''"
    by (simp add: job_status_handle_progress completion_event_def)
  moreover have "map_of (active_generations c) gid \<noteq> None
        \<and> fst (stop_generation (crunch c) penv) = Inr True
        \<longrightarrow> job_status (apply_op c gid (StopRequest penv)) gid = Some ''stopped''"
    by (simp add: job_status_stop)
  moreover have "fst (stop_generation (crunch c) penv) \<noteq> Inr True
        \<longrightarrow> job_status (apply_op c gid (StopRequest penv)) gid = job_status c gid"
    by (simp add: job_status_stop job_status_absent)
  ultimately show ?thesis
    using terminal_run_ops [of c gid ops] job_status_apply_op [of c gid op]
    by blast
qed

lemma running_job: "job_status crunch_after_first_start ''crunch_1000'' = Some ''running''"
  by (simp add: job_status_def crunch_after_first_start_def)

lemma stopped_job:
  "job_status (apply_op crunch_after_first_start ''crunch_1000'' (StopRequest proc_exits))
     ''crunch_1000'' = Some ''stopped''"
  by (simp add: job_status_stop crunch_after_first_start_def stop_generation_def
      stop_current_def proc_exits_def)

lemma stop_succeeds:
  "fst (stop_generation (crunch crunch_after_first_start) proc_exits) = Inr True"
  by (simp add: crunch_after_first_start_def stop_generation_def stop_current_def
      proc_exits_def)

lemma stop_fails:
  "fst (stop_generation (crunch crunch_after_first_start) proc_signal_denied) = Inr False"
  by (simp add: crunch_after_first_start_def stop_generation_def stop_current_def
      stop_handlers_def proc_signal_denied_def)

theorem terminal_status_stays_terminal_witness:
  "job_status (apply_op crunch_after_first_start ''crunch_1000'' (StopRequest proc_exits))
     ''crunch_1000'' = Some ''stopped''
   \<and> job_status
        (run_ops (apply_op crunch_after_first_start ''crunch_1000'' (StopRequest proc_exits))
           ''crunch_1000''
           [Callback 1001 [(''type'', VStr ''progress''), (''percentage'', VInt 42)],
            StopRequest proc_ignores_term, Callback 1002 completion_event])
        ''crunch_1000'' \<in> {Some ''completed'', Some ''stopped''}
   \<and> job_status (apply_op crunch_after_first_start ''crunch_1000''
         (Callback 1001 [(''type'', VStr ''progress''), (''percentage'', VInt 42)]))
        ''crunch_1000'' = Some ''running''
   \<and> job_status (apply_op crunch_after_first_start ''crunch_1000''
         (Callback 1002 completion_event)) ''crunch_1000'' = Some ''completed''
   \<and> job_status (apply_op crunch_after_first_start ''crunch_1000''
         (StopRequest proc_signal_denied)) ''crunch_1000'' = Some ''running''"
proof -
  have present: "map_of (active_generations crunch_after_first_start) ''crunch_1000'' \<noteq> None"
    by (simp add: crunch_after_first_start_def)
  show ?thesis
    using terminal_status_stays_terminal
      [where c = "apply_op crunch_after_first_start ''crunch_1000'' (StopRequest proc_exits)"
        and gid = "''crunch_1000''"
        and ops = "[Callback 1001 [(''type'', VStr ''progress''), (''percentage'', VInt 42)],
                    StopRequest proc_ignores_term, Callback 1002 completion_event]"]
      terminal_status_stays_terminal
      [where c = crunch_after_first_start and gid = "''crunch_1000''"
        and info = "[(''type'', VStr ''progress''), (''percentage'', VInt 42)]"
        and now = 1001 and penv = proc_exits]
      terminal_status_stays_terminal
      [where c = crunch_after_first_start and gid = "''crunch_1000''"
        and now = 1002 and penv = proc_signal_denied]
      present running_job stopped_job stop_succeeds stop_fails
    by simp
qed

text \<open>
  A running job is stopped, so its status is the terminal value \<open>stopped\<close>; the monitor
  thread then sees that the child has exited and delivers its completion event, and
  the status changes to \<open>completed\<close>.
\<close>

theorem stopped_then_completed_counterexample:
  "job_status (apply_op crunch_after_first_start ''crunch_1000'' (StopRequest proc_exits))
     ''crunch_1000'' = Some ''stopped''
   \<and> job_status (run_ops crunch_after_first_start ''crunch_1000''
        [StopRequest proc_exits, Callback 1005 completion_event]) ''crunch_1000''
     = Some ''completed''"
proof -
  let ?stopped = "apply_op crunch_after_first_start ''crunch_1000'' (StopRequest proc_exits)"
  have "map_of (active_generations ?stopped) ''crunch_1000'' \<noteq> None"
    using stopped_job job_status_absent by fastforce
  then have "job_status (apply_op ?stopped ''crunch_1000'' (Callback 1005 completion_event))
               ''crunch_1000'' = Some ''completed''"
    by (simp add: job_status_handle_progress completion_event_def)
  then show ?thesis
    using stopped_job by simp
qed

section \<open>Sweeping the registry\<close>

lemma delete_all_filter: "delete_all ks al = filter (\<lambda>(k, v). k \<notin> set ks) al"
proof (induction ks arbitrary: al)
  case Nil
  then show ?case by simp
next
  case (Cons k ks)
  have "AList.delete k al = filter (\<lambda>(k', v). k' \<noteq> k) al"
    by (induction al) auto
  then show ?case
    using Cons.IH [of "AList.delete k al"]
    by (auto intro: filter_cong)
qed

lemma ids_to_remove_Cons:
  "ids_to_remove sts w now ((k, info) # al) =
     (if stale sts w now info then k # ids_to_remove sts w now al
      else ids_to_remove sts w now al)"
  by (simp add: stale_def split: option.splits)

lemma ids_to_remove_filter:
  "ids_to_remove sts w now al = map fst (filter (\<lambda>(k, info). stale sts w now info) al)"
proof (induction al)
  case Nil
  then show ?case by simp
next
  case (Cons a al)
  obtain k info where a: "a = (k, info)" by (cases a)
  show ?case
    unfolding a ids_to_remove_Cons using Cons.IH by simp
qed

lemma sweep_filter:
  assumes "distinct (map fst al)"
  shows "sweep sts w now al = filter (\<lambda>(k, info). \<not> stale sts w now info) al"
proof -
  have "\<And>k info. (k, info) \<in> set al \<Longrightarrow>
          (k \<in> set (ids_to_remove sts w now al)) = stale sts w now info"
  proof -
    fix k info assume m: "(k, info) \<in> set al"
    show "(k \<in> set (ids_to_remove sts w now al)) = stale sts w now info"
    proof
      assume "k \<in> set (ids_to_remove sts w now al)"
      then obtain info' where "(k, info') \<in> set al" and s: "stale sts w now info'"
        by (auto simp: ids_to_remove_filter)
      then have "info' = info"
        using assms m by (meson eq_key_imp_eq_value)
      with s show "stale sts w now info" by simp
    next
      assume "stale sts w now info"
      then show "k \<in> set (ids_to_remove sts w now al)"
        using m by (force simp: ids_to_remove_filter)
    qed
  qed
  then show ?thesis
    unfolding sweep_def delete_all_filter
    by (intro filter_cong) auto
qed

text \<open>
  C4 (amended). For every registry (a dictionary, so its keys are distinct) and every
  sweep, the sweep removes a job if and only if its status is one the sweep lists
  (\<open>completed\<close> or \<open>stopped\<close> for \<open>cleanup_generations\<close> and
  \<open>cleanup_completed_attacks\<close>; also \<open>failed\<close> for \<open>cleanup_attacks\<close>) and the current
  time exceeds its last update, read as 0 when none is recorded, by more than the
  window (300 seconds; 600 seconds for \<open>cleanup_attacks\<close>). Every other job stays, with
  its entry and its position unchanged, and nothing else in the controller changes.
\<close>

theorem sweep_removes_iff_listed_and_stale:
  "(distinct (map fst (active_generations c)) \<longrightarrow>
      cleanup_generations c now =
        c\<lparr>active_generations :=
            filter (\<lambda>(job_id, info).
                      \<not> (status info \<in> {Some ''completed'', Some ''stopped''}
                         \<and> 300 < now - (case last_update info of None \<Rightarrow> 0 | Some t \<Rightarrow> t)))
              (active_generations c)\<rparr>)
   \<and> (distinct (map fst (active_attacks k)) \<longrightarrow>
        cleanup_attacks k now =
          k\<lparr>active_attacks :=
              filter (\<lambda>(job_id, info).
                        \<not> (status info \<in> {Some ''completed'', Some ''stopped'', Some ''failed''}
                           \<and> 600 < now - (case last_update info of None \<Rightarrow> 0 | Some t \<Rightarrow> t)))
                (active_attacks k)\<rparr>)
   \<and> (distinct (map fst (wifite_attacks w)) \<longrightarrow>
        cleanup_completed_attacks w now =
          w\<lparr>wifite_attacks :=
              filter (\<lambda>(job_id, info).
                        \<not> (status info \<in> {Some ''completed'', Some ''stopped''}
                           \<and> 300 < now - (case last_update info of None \<Rightarrow> 0 | Some t \<Rightarrow> t)))
                (wifite_attacks w)\<rparr>)"
proof -
  have two: "\<And>window info. stale [''completed'', ''stopped''] window now info =
      (status info \<in> {Some ''completed'', Some ''stopped''}
       \<and> window < now - (case last_update info of None \<Rightarrow> 0 | Some t \<Rightarrow> t))"
    by (auto simp: stale_def split: option.splits)
  have three: "\<And>window info. stale [''completed'', ''stopped'', ''failed''] window now info =
      (status info \<in> {Some ''completed'', Some ''stopped'', Some ''failed''}
       \<and> window < now - (case last_update info of None \<Rightarrow> 0 | Some t \<Rightarrow> t))"
    by (auto simp: stale_def split: option.splits)
  show ?thesis
    by (simp add: cleanup_generations_def cleanup_attacks_def cleanup_completed_attacks_def
        sweep_filter two three)
qed

theorem sweep_removes_iff_listed_and_stale_witness:
  "distinct (map fst (active_generations crunch_two_jobs))
   \<and> cleanup_generations crunch_two_jobs 299 = crunch_two_jobs
   \<and> active_generations (cleanup_generations crunch_two_jobs 301) = [(''crunch_1'', job0)]
   \<and> cleanup_attacks cowpatty_controller0 301 = cowpatty_controller0
   \<and> cleanup_completed_attacks
        \<lparr>wifite = \<lparr>current_process = None, wifite_available = True, wifite2_available = False\<rparr>,
         wifite_attacks = []\<rparr> 301
       = \<lparr>wifite = \<lparr>current_process = None, wifite_available = True,
                    wifite2_available = False\<rparr>,
          wifite_attacks = []\<rparr>"
proof -
  have d: "distinct (map fst (active_generations crunch_two_jobs))"
    by (simp add: crunch_two_jobs_def)
  show ?thesis
    using sweep_removes_iff_listed_and_stale [where c = crunch_two_jobs and now = 299
        and k = cowpatty_controller0
        and w = "\<lparr>wifite = \<lparr>current_process = None, wifite_available = True,
                             wifite2_available = False\<rparr>, wifite_attacks = []\<rparr>"]
      sweep_removes_iff_listed_and_stale [where c = crunch_two_jobs and now = 301
        and k = cowpatty_controller0
        and w = "\<lparr>wifite = \<lparr>current_process = None, wifite_available = True,
                             wifite2_available = False\<rparr>, wifite_attacks = []\<rparr>"]
      d
    by (simp add: crunch_two_jobs_def job0_def cowpatty_controller0_def)
qed

text \<open>
  A crunch job marked \<open>failed\<close> at time 0 is still in the registry after the sweep at
  301 seconds, because \<open>cleanup_generations\<close> lists only \<open>completed\<close> and \<open>stopped\<close>; and
  a job that was just stopped, with no last update recorded, is removed by the next
  sweep, because the missing time is read as 0.
\<close>

theorem sweep_failed_kept_unstamped_removed_counterexample:
  "map fst (active_generations (cleanup_generations crunch_with_failed_job 301)) = [''crunch_0'']
   \<and> active_generations (cleanup_generations crunch_just_stopped 1700000001) = []"
  by (simp add: cleanup_generations_def sweep_def crunch_with_failed_job_def
      crunch_just_stopped_def job0_def)

section \<open>How commands reach the launcher\<close>








section \<open>Vendor spoofing\<close>

lemma hex_not_special:
  assumes "is_hex c"
  shows "\<not> is_c_space c" "c \<noteq> CHR ''-''" "c \<noteq> CHR ''+''" "c \<noteq> CHR ''_''"
    "c \<noteq> CHR ''x''" "c \<noteq> CHR ''X''"
  using assms
  by (auto simp: is_hex_def is_digit_def is_lower_hex_def is_upper_hex_def is_c_space_def)

lemma py_int16_two_hex:
  assumes "is_hex a" "is_hex b"
  shows "\<exists>n. py_int16 [a, b] = Inr n"
  using assms hex_not_special [OF assms(1)] hex_not_special [OF assms(2)]
  by (simp add: py_int16_def Let_def)

lemma py_int16_error: "py_int16 s = Inl e \<Longrightarrow> e = ValueError"
  by (simp add: py_int16_def Let_def split: if_splits)

lemma hex_population: "\<forall>c \<in> set hex_alphabet. is_hex c"
  by (simp add: hex_alphabet_def is_hex_def is_digit_def is_lower_hex_def)

lemma choices_hex: "\<forall>c \<in> set (choices hex_alphabet k draw off). is_hex c"
proof -
  have "length hex_alphabet = 16"
    by (simp add: hex_alphabet_def)
  then have "\<And>n. hex_alphabet ! (n mod length hex_alphabet) \<in> set hex_alphabet"
    by (intro nth_mem) simp
  then show ?thesis
    using hex_population unfolding choices_def by auto
qed

lemma take2_choices:
  "\<exists>a b. take 2 (choices hex_alphabet 6 draw off) = [a, b] \<and> is_hex a \<and> is_hex b"
proof -
  let ?cs = "choices hex_alphabet 6 draw off"
  have len: "length ?cs = 6" by (simp add: choices_def)
  then obtain a b r where cs: "?cs = a # b # r"
    by (cases ?cs; cases "tl ?cs") auto
  then have "a \<in> set ?cs" "b \<in> set ?cs" by simp_all
  then have "is_hex a" "is_hex b" using choices_hex by blast+
  then show ?thesis using cs by simp
qed

lemma generate_random_mac_error:
  "generate_random_mac draw vp = Inl e \<Longrightarrow> e = ValueError"
  by (auto simp: generate_random_mac_def Let_def split: sum.splits dest: py_int16_error)

lemma generate_random_mac_random:
  "\<not> (\<exists>v. vp = Some v \<and> length v = 8) \<Longrightarrow> \<exists>m. generate_random_mac draw vp = Inr m"
proof -
  assume h: "\<not> (\<exists>v. vp = Some v \<and> length v = 8)"
  obtain a b where t: "take 2 (choices hex_alphabet 6 draw 0) = [a, b]"
    and hx: "is_hex a" "is_hex b"
    using take2_choices by blast
  obtain n where n: "py_int16 [a, b] = Inr n"
    using py_int16_two_hex [OF hx] by blast
  show ?thesis
    using h t n by (cases vp) (auto simp: generate_random_mac_def Let_def)
qed

lemma generate_random_mac_vendor_hex:
  assumes "length v = 8" "filter (\<lambda>c. c \<noteq> CHR '':'') v = a # b # r" "is_hex a" "is_hex b"
  shows "\<exists>m. generate_random_mac draw (Some v) = Inr m"
proof -
  obtain n where n: "py_int16 [a, b] = Inr n"
    using py_int16_two_hex [OF assms(3,4)] by blast
  have "v \<noteq> []" using assms(1) by auto
  then show ?thesis
    using assms(1,2) n by (simp add: generate_random_mac_def Let_def)
qed

lemma call_three: "call_set_mac_address self env [a, b, c] = Inl TypeError"
  by (simp add: call_set_mac_address_def)

lemma spoof_vendor_mac_eq:
  "spoof_vendor_mac self env draw interface vendor_code =
     (case generate_random_mac draw (Some vendor_code) of
        Inl e \<Rightarrow> Inl e | Inr m \<Rightarrow> Inl TypeError)"
  by (simp add: spoof_vendor_mac_def call_three split: sum.splits)

lemma spoof_specific_vendor_frame:
  "active_spoofs (snd (spoof_specific_vendor ctl env draw t_id t_start interface vendor_code))
     = active_spoofs ctl"
  "fst (spoof_specific_vendor ctl env draw t_id t_start interface vendor_code)
     \<noteq> Inr (Some spoof_id)"
  by (auto simp: spoof_specific_vendor_def Let_def spoof_vendor_mac_eq
      split: prod.splits sum.splits bool.splits option.splits)

text \<open>
  C10 (amended). For every interface string and vendor code,
  \<open>MacchangerIntegration.spoof_vendor_mac\<close> raises and never returns. It raises
  \<open>TypeError\<close>, from calling \<open>set_mac_address\<close> with three positional arguments against
  its two parameters, whenever \<open>generate_random_mac\<close> returns: for every vendor code
  whose length is not 8, and for every vendor code of length 8 whose first two
  characters after the removal of \<open>:\<close> are hexadecimal digits. Otherwise it raises the
  \<open>ValueError\<close> of \<open>int(prefix[:2], 16)\<close> in \<open>generate_random_mac\<close>. So the vendor
  spoof never succeeds, and
  \<open>AdvancedMacSpoofingController.spoof_specific_vendor\<close> never records an active
  vendor spoof and never returns a spoof id.
\<close>

theorem spoof_vendor_mac_always_raises:
  "(\<exists>e. spoof_vendor_mac self env draw interface vendor_code = Inl e
         \<and> (e = TypeError \<or> e = ValueError))
   \<and> (spoof_vendor_mac self env draw interface vendor_code = Inl TypeError
        \<longleftrightarrow> (\<exists>m. generate_random_mac draw (Some vendor_code) = Inr m))
   \<and> (length vendor_code \<noteq> 8
        \<longrightarrow> spoof_vendor_mac self env draw interface vendor_code = Inl TypeError)
   \<and> (length vendor_code = 8
        \<and> (\<exists>a b r. filter (\<lambda>c. c \<noteq> CHR '':'') vendor_code = a # b # r
                    \<and> is_hex a \<and> is_hex b)
        \<longrightarrow> spoof_vendor_mac self env draw interface vendor_code = Inl TypeError)
   \<and> active_spoofs
         (snd (spoof_specific_vendor ctl env draw t_id t_start interface vendor_code))
       = active_spoofs ctl
   \<and> (\<forall>spoof_id. fst (spoof_specific_vendor ctl env draw t_id t_start interface vendor_code)
         \<noteq> Inr (Some spoof_id))"
proof -
  have raises: "\<exists>e. spoof_vendor_mac self env draw interface vendor_code = Inl e
         \<and> (e = TypeError \<or> e = ValueError)"
  proof (cases "generate_random_mac draw (Some vendor_code)")
    case (Inl e)
    then have "e = ValueError"
      by (rule generate_random_mac_error)
    then show ?thesis
      using Inl by (simp add: spoof_vendor_mac_eq)
  next
    case (Inr m)
    then show ?thesis
      by (simp add: spoof_vendor_mac_eq)
  qed
  have type_iff: "spoof_vendor_mac self env draw interface vendor_code = Inl TypeError
        \<longleftrightarrow> (\<exists>m. generate_random_mac draw (Some vendor_code) = Inr m)"
  proof (cases "generate_random_mac draw (Some vendor_code)")
    case (Inl e)
    then have "e = ValueError"
      by (rule generate_random_mac_error)
    then show ?thesis
      using Inl by (simp add: spoof_vendor_mac_eq)
  next
    case (Inr m)
    then show ?thesis
      by (simp add: spoof_vendor_mac_eq)
  qed
  have other_length: "length vendor_code \<noteq> 8
        \<longrightarrow> spoof_vendor_mac self env draw interface vendor_code = Inl TypeError"
    using generate_random_mac_random [of "Some vendor_code" draw] type_iff by auto
  have hex_vendor: "length vendor_code = 8
        \<and> (\<exists>a b r. filter (\<lambda>c. c \<noteq> CHR '':'') vendor_code = a # b # r
                    \<and> is_hex a \<and> is_hex b)
        \<longrightarrow> spoof_vendor_mac self env draw interface vendor_code = Inl TypeError"
    using generate_random_mac_vendor_hex [of vendor_code _ _ _ draw] type_iff by blast
  show ?thesis
    using raises type_iff other_length hex_vendor
      spoof_specific_vendor_frame(1) [of ctl env draw t_id t_start interface vendor_code]
      spoof_specific_vendor_frame(2) [of ctl env draw t_id t_start interface vendor_code]
    by blast
qed

theorem spoof_vendor_mac_always_raises_witness:
  "spoof_vendor_mac (macchanger mac_controller0) mac_env0 draw0 ''wlan0'' ''00:1A:11''
     = Inl TypeError
   \<and> spoof_vendor_mac (macchanger mac_controller0) mac_env0 draw0 ''wlan0'' ''apple''
     = Inl TypeError
   \<and> active_spoofs
        (snd (spoof_specific_vendor mac_controller0 mac_env0 draw0 1000 1000 ''wlan0''
                ''00:1A:11''))
      = []"
proof -
  have hex: "is_hex CHR ''0''"
    by (simp add: is_hex_def is_digit_def)
  have stripped: "filter (\<lambda>c. c \<noteq> CHR '':'') ''00:1A:11'' = CHR ''0'' # CHR ''0'' # ''1A11''"
    by simp
  have known: "length ''00:1A:11'' = 8
      \<and> (\<exists>a b r. filter (\<lambda>c. c \<noteq> CHR '':'') ''00:1A:11'' = a # b # r \<and> is_hex a \<and> is_hex b)"
    using hex stripped by auto
  have short: "length ''apple'' \<noteq> 8"
    by simp
  have empty: "active_spoofs mac_controller0 = []"
    by (simp add: mac_controller0_def)
  show ?thesis
    using spoof_vendor_mac_always_raises [where self = "macchanger mac_controller0"
        and env = mac_env0 and draw = draw0 and interface = "''wlan0''"
        and vendor_code = "''00:1A:11''" and ctl = mac_controller0 and t_id = 1000
        and t_start = 1000]
      spoof_vendor_mac_always_raises [where self = "macchanger mac_controller0"
        and env = mac_env0 and draw = draw0 and interface = "''wlan0''"
        and vendor_code = "''apple''" and ctl = mac_controller0 and t_id = 1000
        and t_start = 1000]
      known short empty
    by metis
qed

text \<open>
  The vendor code \<open>zz:zz:zz\<close> has length 8, so \<open>generate_random_mac\<close> takes \<open>zzzzzz\<close>
  as the prefix and \<open>int('zz', 16)\<close> raises \<open>ValueError\<close> before \<open>set_mac_address\<close> is
  called: the exception is not a \<open>TypeError\<close>.
\<close>

theorem spoof_vendor_mac_value_error_counterexample:
  "spoof_vendor_mac (macchanger mac_controller0) mac_env0 draw0 ''wlan0'' ''zz:zz:zz''
     = Inl ValueError"
  by (simp add: spoof_vendor_mac_eq generate_random_mac_def py_int16_def is_c_space_def
      is_hex_def is_digit_def is_lower_hex_def is_upper_hex_def Let_def)

end
